theory Spec2Isabelle
  imports Main "HOL-Library.Word"
begin

unbundle bit_operations_syntax

section \<open>The headers of usb.c\<close>

text \<open>
  \<^verbatim>\<open>trunk/openiboot/usb.c\<close> includes \<^verbatim>\<open>openiboot.h\<close>, \<^verbatim>\<open>usb.h\<close>,
  \<^verbatim>\<open>hardware/usb.h\<close>, \<^verbatim>\<open>hardware/power.h\<close> and others, none of which is among
  the sources. Every macro, enumerator and \<^verbatim>\<open>sizeof\<close> that the file takes from them is
  a parameter of the model: a \<open>header\<close> gives each name its value. The names are grouped
  by what they stand for; the functions below read them as the C text does.
\<close>

datatype usb_reg =
    USB | USB_PHY | USB_INREGS | USB_OUTREGS
  | DCTL | USB_ONOFF | OPHYPWR | OPHYCLK | ORSTCON | GRSTCTL
  | GINTMSK | DIEPMSK | DOEPMSK | DAINTMSK | GAHBCFG | USB_UNKNOWNREG1
  | DCFG | GRXFSIZ | GNPTXFSIZ | GOTGCTL

datatype usb_flag =
    DCTL_SFTDISCONNECT | DCTL_PROGRAMDONE | DCTL_CGOUTNAK | DCTL_CGNPINNAK
  | USB_ONOFF_OFF
  | OPHYPWR_POWERON | OPHYPWR_FORCESUSPEND | OPHYPWR_PLLPOWERDOWN
  | OPHYPWR_XOPOWERDOWN | OPHYPWR_ANALOGPOWERDOWN | OPHYPWR_UNKNOWNPOWERDOWN
  | OPHYCLK_CLKSEL_MASK | OPHYCLK_CLKSEL_48MHZ
  | ORSTCON_PHYSWRESET | ORSTCON_LINKSWRESET | ORSTCON_PHYLINKSWRESET
  | GRSTCTL_CORESOFTRESET
  | GAHBCFG_DMAEN | GAHBCFG_BSTLEN_INCR8 | GAHBCFG_MASKINT
  | USB_UNKNOWNREG1_START
  | DCFG_NZSTSOUTHSHK | DCFG_DEVICEADDRMSK
  | GOTGCTL_SESSIONREQUEST
  | RX_FIFO_DEPTH | TX_FIFO_DEPTH | TX_FIFO_STARTADDR
  | USB_EPCON_ACTIVE

datatype usb_mask =
    USB_EPINT_INEPNakEff | USB_EPINT_INTknEPMis | USB_EPINT_INTknTXFEmp
  | USB_EPINT_TimeOUT | USB_EPINT_AHBErr | USB_EPINT_EPDisbld | USB_EPINT_XferCompl
  | USB_EPINT_OUTTknEPDis | USB_EPINT_SetUp | USB_EPINT_ALL
  | GINTMSK_NONE | GINTMSK_OTG | GINTMSK_SUSPEND | GINTMSK_RESET
  | GINTMSK_INEP | GINTMSK_OEP | GINTMSK_DISCONNECT
  | DIEPMSK_NONE | DIEPMSK_XFERCOMPL | DIEPMSK_AHBERR | DIEPMSK_TIMEOUT
  | DOEPMSK_NONE | DOEPMSK_XFERCOMPL | DOEPMSK_SETUP | DOEPMSK_BACK2BACKSETUP
  | DAINTMSK_ALL

datatype platform_const =
    USB_START_DELAYUS | USB_SFTDISCONNECT_DELAYUS | USB_ONOFFSTART_DELAYUS
  | USB_PHYPWRPOWERON_DELAYUS | USB_RESET2_DELAYUS | USB_RESET_DELAYUS
  | USB_RESETWAITFINISH_DELAYUS | USB_SFTCONNECT_DELAYUS | USB_PROGRAMDONE_DELAYUS
  | POWER_USB | ON | OFF
  | USB_OTGCLOCKGATE | USB_PHYCLOCKGATE | EDRAM_CLOCKGATE
  | USB_INTERRUPT
  | USB_ENDPOINT_DIRECTIONS_BIDIR | USB_ENDPOINT_DIRECTIONS_IN | USB_ENDPOINT_DIRECTIONS_OUT

datatype usb_const =
    USBStart | USBPowered | USBConfigured
  | USBIn | USBOut | USBBiDir
  | USBBulk | USBNoSynchronization | USBDataEndpoint
  | USBDeviceDescriptorType | USBConfigurationDescriptorType | USBStringDescriptorType
  | USBInterfaceDescriptorType | USBEndpointDescriptorType
  | USB_2_0 | USB_MAX_PACKETSIZE | VENDOR_APPLE | PRODUCT_IPHONE | DEVICE_IPHONE
  | USB_LANGID_ENGLISH_US
  | OPENIBOOT_INTERFACE_CLASS | OPENIBOOT_INTERFACE_SUBCLASS | OPENIBOOT_INTERFACE_PROTOCOL
  | USB_HIGHSPEED | USB_FULLSPEED | USB_FULLSPEED_48_MHZ | USB_LOWSPEED

datatype usb_struct =
    USBDeviceDescriptor_t | USBConfigurationDescriptor_t | USBInterfaceDescriptor_t
  | USBEndpointDescriptor_t | USBStringDescriptor_t | USBFirstStringDescriptor_t

text \<open>
  \<open>USB_NUM_ENDPOINTS\<close> is read as a plain (signed, positive) integer constant, the way
  \<^verbatim>\<open>for(i = 0; i < USB_NUM_ENDPOINTS; i++)\<close> with \<^verbatim>\<open>int i\<close> uses it.
  \<open>USB_EP_DIRECTION\<close> is the macro of that name, applied to an endpoint number.
  \<open>GET_REG_signed\<close> says whether the value of \<^verbatim>\<open>GET_REG(x)\<close> is a signed 32-bit
  integer: it decides \<^verbatim>\<open>GET_REG(USB + GRSTCTL) >= 0\<close> in \<^verbatim>\<open>usb_setup\<close>, which is
  always true of an unsigned value.
\<close>

record header =
  reg :: "usb_reg \<Rightarrow> 32 word"
  flag :: "usb_flag \<Rightarrow> 32 word"
  intr :: "usb_mask \<Rightarrow> 32 word"
  plat :: "platform_const \<Rightarrow> 32 word"
  usb :: "usb_const \<Rightarrow> 32 word"
  sizeof :: "usb_struct \<Rightarrow> nat"
  USB_NUM_ENDPOINTS :: nat
  USB_EP_DIRECTION :: "nat \<Rightarrow> 32 word"
  GET_REG_signed :: bool

section \<open>Memory\<close>

text \<open>
  What goes wrong in the C text is a value of the model. \<open>NoResponse\<close> is the one
  fault that is not undefined behaviour: the hardware's recorded answers ran out while
  the driver was still reading a register (see \<open>GET_REG\<close> below).
\<close>

datatype fault = NullDeref | WildPointer | OutOfBounds | UninitRead | NoResponse

type_synonym 'a result = "fault + 'a"

text \<open>
  A pointer to a heap array is \<open>Null\<close>, \<open>Wild\<close> (the bytes of a pointer that was never
  assigned, and are not zero) or an array of slots. A slot that was never written since
  the allocation is \<open>None\<close>. \<open>realloc(p, sizeof(T) * n)\<close> keeps the first slots and
  leaves the new ones unwritten.
\<close>

datatype 'a cptr = Null | Wild | Array "'a option list"

definition resize :: "nat \<Rightarrow> 'a option list \<Rightarrow> 'a option list" where
  "resize n xs = take n xs @ replicate (n - length xs) None"

definition realloc :: "'a cptr \<Rightarrow> nat \<Rightarrow> 'a option list result" where
  "realloc p n =
     (case p of
        Null \<Rightarrow> Inr (replicate n None)
      | Wild \<Rightarrow> Inl WildPointer
      | Array xs \<Rightarrow> Inr (resize n xs))"

definition slot_read :: "'a cptr \<Rightarrow> nat \<Rightarrow> 'a result" where
  "slot_read p i =
     (case p of
        Null \<Rightarrow> Inl NullDeref
      | Wild \<Rightarrow> Inl WildPointer
      | Array xs \<Rightarrow>
          (if i < length xs
           then (case xs ! i of None \<Rightarrow> Inl UninitRead | Some v \<Rightarrow> Inr v)
           else Inl OutOfBounds))"

definition slot_write :: "'a cptr \<Rightarrow> nat \<Rightarrow> 'a \<Rightarrow> 'a cptr result" where
  "slot_write p i v =
     (case p of
        Null \<Rightarrow> Inl NullDeref
      | Wild \<Rightarrow> Inl WildPointer
      | Array xs \<Rightarrow>
          (if i < length xs then Inr (Array (xs[i := Some v])) else Inl OutOfBounds))"

text \<open>\<^verbatim>\<open>free(p)\<close>: defined for a null pointer and for an allocation.\<close>

definition free :: "'a cptr \<Rightarrow> unit result" where
  "free p = (case p of Wild \<Rightarrow> Inl WildPointer | _ \<Rightarrow> Inr ())"

text \<open>
  \<^verbatim>\<open>for(i = 0; i < n; i++)\<close> with \<^verbatim>\<open>int8_t i\<close> and a \<^verbatim>\<open>uint8_t\<close> bound, as both
  release functions have it. After \<open>i = 127\<close> the increment wraps to \<open>-128\<close>, which is
  still below the bound, and the body then indexes its array at \<open>-128\<close>.
\<close>

function for_int8 :: "nat \<Rightarrow> (nat \<Rightarrow> unit result) \<Rightarrow> nat \<Rightarrow> unit result" where
  "for_int8 n body i =
     (if i < n
      then (case body i of
              Inl e \<Rightarrow> Inl e
            | Inr _ \<Rightarrow> if i = 127 then Inl OutOfBounds else for_int8 n body (Suc i))
      else Inr ())"
  by pat_completeness auto
termination
  by (relation "measure (\<lambda>(n, body, i). n - i)") auto

section \<open>Descriptors\<close>

type_synonym u8 = "8 word"
type_synonym u16 = "16 word"
type_synonym u32 = "32 word"

record USBDeviceDescriptor =
  dd_bLength :: u8
  dd_bDescriptorType :: u8
  bcdUSB :: u16
  bDeviceClass :: u8
  bDeviceSubClass :: u8
  bDeviceProtocol :: u8
  bMaxPacketSize :: u8
  idVendor :: u16
  idProduct :: u16
  bcdDevice :: u16
  iManufacturer :: u8
  iProduct :: u8
  iSerialNumber :: u8
  bNumConfigurations :: u8

record USBConfigurationDescriptor =
  cd_bLength :: u8
  cd_bDescriptorType :: u8
  wTotalLength :: u16
  bNumInterfaces :: u8
  bConfigurationValue :: u8
  iConfiguration :: u8
  cd_bmAttributes :: u8
  bMaxPower :: u8

record USBInterfaceDescriptor =
  id_bLength :: u8
  id_bDescriptorType :: u8
  bInterfaceNumber :: u8
  bAlternateSetting :: u8
  bNumEndpoints :: u8
  bInterfaceClass :: u8
  bInterfaceSubClass :: u8
  bInterfaceProtocol :: u8
  iInterface :: u8

record USBEndpointDescriptor =
  ed_bLength :: u8
  ed_bDescriptorType :: u8
  bEndpointAddress :: u8
  ed_bmAttributes :: u8
  wMaxPacketSize :: u16
  bInterval :: u8

text \<open>
  A string descriptor is its two header bytes and the copied text. The first string
  descriptor (the list of language ids) has the same header; the code never assigns it,
  so each header byte is \<open>None\<close> until something writes it.
\<close>

record USBStringDescriptor =
  sd_bLength :: u8
  sd_bDescriptorType :: u8
  bString :: string

record USBFirstStringDescriptor =
  fs_bLength :: "u8 option"
  fs_bDescriptorType :: "u8 option"
  wLANGID :: "u16 option list"

record USBInterface =
  if_descriptor :: USBInterfaceDescriptor
  endpointDescriptors :: "USBEndpointDescriptor cptr"

record USBConfiguration =
  cfg_descriptor :: USBConfigurationDescriptor
  interfaces :: "USBInterface cptr"

record USBEndpointHandlerInfo =
  handler :: u32
  token :: u32

record USBEndpointBidirHandlerInfo =
  ep_in :: USBEndpointHandlerInfo
  ep_out :: USBEndpointHandlerInfo

section \<open>The driver's state and its surroundings\<close>

text \<open>
  What the driver does to the world outside its variables is recorded, in order, in a
  trace. A register read takes the next of the hardware's answers (\<open>hw_reads\<close>).
  \<^verbatim>\<open>usb_inited\<close> is a \<^verbatim>\<open>Boolean\<close> that the code sets to \<^verbatim>\<open>TRUE\<close> and tests for
  truth; a function pointer is its address; \<^verbatim>\<open>inBuffer\<close> and \<^verbatim>\<open>outBuffer\<close> are
  null or allocated.
\<close>

datatype ep_bank = InEP | OutEP

datatype ep_field = EP_control | EP_interrupt

datatype hw_event =
    RegRead u32 u32
  | RegWrite u32 u32
  | EPRegWrite u32 nat ep_field u32
  | PowerCtrl u32 u32
  | ClockGateSwitch u32 u32
  | Udelay u32
  | InterruptInstall u32 u32
  | InterruptEnable u32
  | Memalign u32 u32

record usb_driver =
  usb_inited :: bool
  usb_state :: u32
  endpoint_directions :: "u32 list"
  endpoint_handlers :: "USBEndpointBidirHandlerInfo list"
  InEPRegs :: u32
  OutEPRegs :: u32
  deviceDescriptor :: USBDeviceDescriptor
  numStringDescriptors :: u8
  stringDescriptors :: "USBStringDescriptor cptr"
  firstStringDescriptor :: "USBFirstStringDescriptor option"
  configurations :: "USBConfiguration cptr"
  inBuffer :: bool
  outBuffer :: bool
  hw_reads :: "u32 list"
  hw_trace :: "hw_event list"

section \<open>The string table\<close>

text \<open>
  A C string is given by its characters; \<^verbatim>\<open>strlen\<close> counts up to the first NUL, or
  to the end when there is none (the terminator is then the one after the last
  character).
\<close>

definition strlen :: "string \<Rightarrow> nat" where
  "strlen str = length (takeWhile (\<lambda>c. c \<noteq> CHR 0x00) str)"

text \<open>A slot written right after a \<^verbatim>\<open>realloc\<close>, at an index that must be inside it.\<close>

definition slot_set :: "'a option list \<Rightarrow> nat \<Rightarrow> 'a \<Rightarrow> 'a option list result" where
  "slot_set xs i v = (if i < length xs then Inr (xs[i := Some v]) else Inl OutOfBounds)"

text \<open>
  \<^verbatim>\<open>realloc(firstStringDescriptor, sizeof(USBFirstStringDescriptor) + sizeof(uint16_t) * n)\<close>:
  the header bytes and the first language ids are kept; a first allocation has nothing
  written in it.
\<close>

definition realloc_first ::
  "USBFirstStringDescriptor option \<Rightarrow> nat \<Rightarrow> USBFirstStringDescriptor" where
  "realloc_first p n =
     (case p of
        None \<Rightarrow> \<lparr>fs_bLength = None, fs_bDescriptorType = None, wLANGID = replicate n None\<rparr>
      | Some f \<Rightarrow> f\<lparr>wLANGID := resize n (wLANGID f)\<rparr>)"

definition addStringDescriptor ::
  "header \<Rightarrow> string \<Rightarrow> usb_driver \<Rightarrow> (u8 \<times> usb_driver) result" where
  "addStringDescriptor K descriptorString s =
     (let newIndex = numStringDescriptors s;
          n = newIndex + 1;
          sLen = strlen descriptorString
      in case realloc (stringDescriptors s) (unat n) of
           Inl e \<Rightarrow> Inl e
         | Inr arr \<Rightarrow>
            (case slot_set arr (unat newIndex)
                    \<lparr>sd_bLength = of_nat (sizeof K USBStringDescriptor_t + sLen),
                     sd_bDescriptorType = ucast (usb K USBStringDescriptorType),
                     bString = take sLen descriptorString\<rparr> of
               Inl e \<Rightarrow> Inl e
             | Inr arr' \<Rightarrow>
                (let f = realloc_first (firstStringDescriptor s) (unat n)
                 in case slot_set (wLANGID f) (unat newIndex)
                           (ucast (usb K USB_LANGID_ENGLISH_US)) of
                      Inl e \<Rightarrow> Inl e
                    | Inr ids \<Rightarrow>
                        Inr (newIndex + 1,
                             s\<lparr>numStringDescriptors := n,
                               stringDescriptors := Array arr',
                               firstStringDescriptor := Some (f\<lparr>wLANGID := ids\<rparr>)\<rparr>))))"

text \<open>
  \<^verbatim>\<open>usb_get_string_descriptor\<close> returns a pointer: to the first string descriptor
  (which may be null) for index 0, and otherwise the pointer stored in slot
  \<open>index - 1\<close>.
\<close>

datatype string_descriptor_ref =
    LangIdDescriptor "USBFirstStringDescriptor option"
  | TextDescriptor USBStringDescriptor

definition usb_get_string_descriptor ::
  "usb_driver \<Rightarrow> int \<Rightarrow> string_descriptor_ref result" where
  "usb_get_string_descriptor s index =
     (if index = 0 then Inr (LangIdDescriptor (firstStringDescriptor s))
      else if index - 1 < 0 then Inl OutOfBounds
      else (case slot_read (stringDescriptors s) (nat (index - 1)) of
              Inl e \<Rightarrow> Inl e
            | Inr d \<Rightarrow> Inr (TextDescriptor d)))"

definition releaseStringDescriptors :: "usb_driver \<Rightarrow> usb_driver result" where
  "releaseStringDescriptors s =
     (case stringDescriptors s of
        Null \<Rightarrow> Inr s
      | _ \<Rightarrow>
         (case for_int8 (unat (numStringDescriptors s))
                 (\<lambda>i. case slot_read (stringDescriptors s) i of
                         Inl e \<Rightarrow> Inl e
                       | Inr d \<Rightarrow> Inr ()) 0 of
            Inl e \<Rightarrow> Inl e
          | Inr _ \<Rightarrow>
             (case free (stringDescriptors s) of
                Inl e \<Rightarrow> Inl e
              | Inr _ \<Rightarrow> Inr (s\<lparr>numStringDescriptors := 0, stringDescriptors := Null\<rparr>))))"

section \<open>The descriptor registry\<close>

definition initializeDescriptors :: "usb_driver \<Rightarrow> usb_driver" where
  "initializeDescriptors s =
     s\<lparr>numStringDescriptors := 0, stringDescriptors := Null, configurations := Null\<rparr>"

text \<open>
  \<^verbatim>\<open>addConfiguration\<close> assigns every field of the new slot's descriptor and leaves the
  slot's \<^verbatim>\<open>interfaces\<close> pointer as \<^verbatim>\<open>realloc\<close> handed it out. \<open>zeroed\<close> says
  whether those bytes happen to be zero.
\<close>

definition addConfiguration ::
  "header \<Rightarrow> bool \<Rightarrow> u8 \<Rightarrow> u8 \<Rightarrow> u8 \<Rightarrow> u8 \<Rightarrow> u16 \<Rightarrow> usb_driver \<Rightarrow> (u8 \<times> usb_driver) result" where
  "addConfiguration K zeroed bConfigurationValue' iConfiguration' selfPowered remoteWakeup
       maxPower s =
     (let newIndex = bNumConfigurations (deviceDescriptor s);
          n = newIndex + 1
      in case realloc (configurations s) (unat n) of
           Inl e \<Rightarrow> Inl e
         | Inr arr \<Rightarrow>
            (if unat newIndex < length arr
             then
               (let d = \<lparr>cd_bLength = of_nat (sizeof K USBConfigurationDescriptor_t),
                         cd_bDescriptorType = ucast (usb K USBConfigurationDescriptorType),
                         wTotalLength = 0,
                         bNumInterfaces = 0,
                         bConfigurationValue = bConfigurationValue',
                         iConfiguration = iConfiguration',
                         cd_bmAttributes =
                           ucast (push_bit 7 (1 :: u32)
                                  OR push_bit 6 (ucast selfPowered AND 1)
                                  OR push_bit 5 (ucast remoteWakeup AND 1)),
                         bMaxPower = ucast (maxPower div 2)\<rparr>;
                    c = (case arr ! unat newIndex of
                           None \<Rightarrow> \<lparr>cfg_descriptor = d,
                                     interfaces = (if zeroed then Null else Wild)\<rparr>
                         | Some old \<Rightarrow> old\<lparr>cfg_descriptor := d\<rparr>)
                in Inr (newIndex,
                        s\<lparr>deviceDescriptor := (deviceDescriptor s)\<lparr>bNumConfigurations := n\<rparr>,
                          configurations := Array (arr[unat newIndex := Some c])\<rparr>))
             else Inl OutOfBounds))"

text \<open>
  \<^verbatim>\<open>endConfiguration(configuration)\<close>: the pointer is \<open>&configurations[cfg]\<close>. The loop
  bound is read through \<^verbatim>\<open>configurations\<close>, the start of the array, not through
  \<^verbatim>\<open>configuration\<close>.
\<close>

fun sum_interfaces :: "header \<Rightarrow> USBInterface cptr \<Rightarrow> nat list \<Rightarrow> u16 \<Rightarrow> u16 result" where
  "sum_interfaces K p [] w = Inr w"
| "sum_interfaces K p (i # rest) w =
     (case slot_read p i of
        Inl e \<Rightarrow> Inl e
      | Inr ifc \<Rightarrow>
          sum_interfaces K p rest
            (w + of_nat (sizeof K USBInterfaceDescriptor_t
                         + unat (bNumEndpoints (if_descriptor ifc))
                           * sizeof K USBEndpointDescriptor_t)))"

definition endConfiguration :: "header \<Rightarrow> nat \<Rightarrow> usb_driver \<Rightarrow> usb_driver result" where
  "endConfiguration K cfg s =
     (case slot_read (configurations s) cfg of
        Inl e \<Rightarrow> Inl e
      | Inr c \<Rightarrow>
         (case slot_read (configurations s) 0 of
            Inl e \<Rightarrow> Inl e
          | Inr c0 \<Rightarrow>
             (case sum_interfaces K (interfaces c)
                     [0 ..< unat (bNumInterfaces (cfg_descriptor c0))]
                     (of_nat (sizeof K USBConfigurationDescriptor_t)) of
                Inl e \<Rightarrow> Inl e
              | Inr w \<Rightarrow>
                 (case slot_write (configurations s) cfg
                         (c\<lparr>cfg_descriptor := (cfg_descriptor c)\<lparr>wTotalLength := w\<rparr>\<rparr>) of
                    Inl e \<Rightarrow> Inl e
                  | Inr arr \<Rightarrow> Inr (s\<lparr>configurations := arr\<rparr>)))))"

text \<open>
  \<^verbatim>\<open>addInterfaceDescriptor\<close> and \<^verbatim>\<open>addEndpointDescriptor\<close> work through a pointer to
  one configuration and one interface: they are functions of that object. The returned
  \<^verbatim>\<open>USBInterface*\<close> is the index of the new slot.
\<close>

definition addInterfaceDescriptor ::
  "header \<Rightarrow> USBConfiguration \<Rightarrow> u8 \<Rightarrow> u8 \<Rightarrow> u8 \<Rightarrow> u8 \<Rightarrow> u8 \<Rightarrow> u8
     \<Rightarrow> (nat \<times> USBConfiguration) result" where
  "addInterfaceDescriptor K configuration bInterfaceNumber' bAlternateSetting' bInterfaceClass'
       bInterfaceSubClass' bInterfaceProtocol' iInterface' =
     (let newIndex = bNumInterfaces (cfg_descriptor configuration);
          n = newIndex + 1
      in case realloc (interfaces configuration) (unat n) of
           Inl e \<Rightarrow> Inl e
         | Inr arr \<Rightarrow>
            (case slot_set arr (unat newIndex)
                    \<lparr>if_descriptor =
                       \<lparr>id_bLength = of_nat (sizeof K USBInterfaceDescriptor_t),
                        id_bDescriptorType = ucast (usb K USBInterfaceDescriptorType),
                        bInterfaceNumber = bInterfaceNumber',
                        bAlternateSetting = bAlternateSetting',
                        bNumEndpoints = 0,
                        bInterfaceClass = bInterfaceClass',
                        bInterfaceSubClass = bInterfaceSubClass',
                        bInterfaceProtocol = bInterfaceProtocol',
                        iInterface = iInterface'\<rparr>,
                     endpointDescriptors = Null\<rparr> of
               Inl e \<Rightarrow> Inl e
             | Inr arr' \<Rightarrow>
                 Inr (unat newIndex,
                      configuration
                        \<lparr>cfg_descriptor := (cfg_descriptor configuration)\<lparr>bNumInterfaces := n\<rparr>,
                         interfaces := Array arr'\<rparr>)))"

text \<open>
  The return type is \<^verbatim>\<open>uint8_t\<close>, so \<^verbatim>\<open>return -1\<close> is 255. \<open>direction\<close> is a
  \<^verbatim>\<open>USBDirection\<close>, an enumeration without negative values: \<^verbatim>\<open>direction > 2\<close>
  compares unsigned.
\<close>

definition addEndpointDescriptor ::
  "header \<Rightarrow> USBInterface \<Rightarrow> u8 \<Rightarrow> u32 \<Rightarrow> u32 \<Rightarrow> u32 \<Rightarrow> u32 \<Rightarrow> u16 \<Rightarrow> u8
     \<Rightarrow> (u8 \<times> USBInterface) result" where
  "addEndpointDescriptor K interface endpoint direction transferType syncType usageType
       wMaxPacketSize' bInterval' =
     (if 2 < direction then Inr (- 1, interface)
      else
        (let newIndex = bNumEndpoints (if_descriptor interface);
             n = newIndex + 1
         in case realloc (endpointDescriptors interface) (unat n) of
              Inl e \<Rightarrow> Inl e
            | Inr arr \<Rightarrow>
               (case slot_set arr (unat newIndex)
                       \<lparr>ed_bLength = of_nat (sizeof K USBEndpointDescriptor_t),
                        ed_bDescriptorType = ucast (usb K USBEndpointDescriptorType),
                        bEndpointAddress =
                          ucast ((ucast endpoint AND 3) OR push_bit 7 (direction AND 1)),
                        ed_bmAttributes =
                          ucast ((transferType AND 3) OR push_bit 2 (syncType AND 3)
                                 OR push_bit 4 (usageType AND 3)),
                        wMaxPacketSize = wMaxPacketSize',
                        bInterval = bInterval'\<rparr> of
                  Inl e \<Rightarrow> Inl e
                | Inr arr' \<Rightarrow>
                    Inr (newIndex,
                         interface
                           \<lparr>if_descriptor := (if_descriptor interface)\<lparr>bNumEndpoints := n\<rparr>,
                            endpointDescriptors := Array arr'\<rparr>))))"

text \<open>The return type is \<^verbatim>\<open>uint16_t\<close>, so \<^verbatim>\<open>return -1\<close> is 65535.\<close>

definition packetsizeFromSpeed :: "header \<Rightarrow> u8 \<Rightarrow> u16" where
  "packetsizeFromSpeed K speed_id =
     (if ucast speed_id = usb K USB_HIGHSPEED then 512
      else if ucast speed_id = usb K USB_FULLSPEED
              \<or> ucast speed_id = usb K USB_FULLSPEED_48_MHZ
      then 64
      else if ucast speed_id = usb K USB_LOWSPEED then 32
      else - 1)"

definition usb_get_device_descriptor :: "header \<Rightarrow> bool \<Rightarrow> usb_driver \<Rightarrow> usb_driver result" where
  "usb_get_device_descriptor K zeroed s =
     (case configurations s of
        Null \<Rightarrow>
         (let s0 = s\<lparr>deviceDescriptor := (deviceDescriptor s)
                      \<lparr>dd_bLength := of_nat (sizeof K USBDeviceDescriptor_t),
                       dd_bDescriptorType := ucast (usb K USBDeviceDescriptorType),
                       bcdUSB := ucast (usb K USB_2_0),
                       bDeviceClass := 0,
                       bDeviceSubClass := 0,
                       bDeviceProtocol := 0,
                       bMaxPacketSize := ucast (usb K USB_MAX_PACKETSIZE),
                       idVendor := ucast (usb K VENDOR_APPLE),
                       idProduct := ucast (usb K PRODUCT_IPHONE),
                       bcdDevice := ucast (usb K DEVICE_IPHONE)\<rparr>\<rparr>
          in case addStringDescriptor K ''Apple Inc.'' s0 of
               Inl e \<Rightarrow> Inl e
             | Inr (i1, s1) \<Rightarrow>
          (case addStringDescriptor K ''Apple Mobile Device (OpenIBoot Mode)''
                  (s1\<lparr>deviceDescriptor := (deviceDescriptor s1)\<lparr>iManufacturer := i1\<rparr>\<rparr>) of
               Inl e \<Rightarrow> Inl e
             | Inr (i2, s2) \<Rightarrow>
          (case addStringDescriptor K []
                  (s2\<lparr>deviceDescriptor := (deviceDescriptor s2)\<lparr>iProduct := i2\<rparr>\<rparr>) of
               Inl e \<Rightarrow> Inl e
             | Inr (i3, s3) \<Rightarrow>
          (case addStringDescriptor K ''OpenIBoot Mode Configuration''
                  (s3\<lparr>deviceDescriptor := (deviceDescriptor s3)
                        \<lparr>iSerialNumber := i3, bNumConfigurations := 0\<rparr>\<rparr>) of
               Inl e \<Rightarrow> Inl e
             | Inr (i4, s4) \<Rightarrow>
          (case addConfiguration K zeroed 1 i4 0 0 500 s4 of
               Inl e \<Rightarrow> Inl e
             | Inr (_, s5) \<Rightarrow> Inr s5)))))
      | _ \<Rightarrow> Inr s)"

text \<open>
  \<^verbatim>\<open>usb_get_configuration_descriptor\<close> returns \<open>&configurations[index].descriptor\<close>:
  an address that the function computes and does not read through, whatever the index
  is. The model returns the pointer as the index it was computed from. The only load
  is \<^verbatim>\<open>configurations[0].interfaces\<close> in the condition, made when the index is 0.
  \<open>synthesize_interface\<close> is the body of the \<^verbatim>\<open>if\<close>.
\<close>

definition synthesize_interface :: "header \<Rightarrow> u8 \<Rightarrow> usb_driver \<Rightarrow> usb_driver result" where
  "synthesize_interface K speed_id s =
     (case addStringDescriptor K ''IF0'' s of
        Inl e \<Rightarrow> Inl e
      | Inr (iIF, s1) \<Rightarrow>
     (case slot_read (configurations s1) 0 of
        Inl e \<Rightarrow> Inl e
      | Inr c0 \<Rightarrow>
     (case addInterfaceDescriptor K c0 0 0
             (ucast (usb K OPENIBOOT_INTERFACE_CLASS))
             (ucast (usb K OPENIBOOT_INTERFACE_SUBCLASS))
             (ucast (usb K OPENIBOOT_INTERFACE_PROTOCOL)) iIF of
        Inl e \<Rightarrow> Inl e
      | Inr (i, c1) \<Rightarrow>
     (case slot_read (interfaces c1) i of
        Inl e \<Rightarrow> Inl e
      | Inr ifc \<Rightarrow>
     (case addEndpointDescriptor K ifc 1 (usb K USBIn) (usb K USBBulk)
             (usb K USBNoSynchronization) (usb K USBDataEndpoint)
             (packetsizeFromSpeed K speed_id) 0 of
        Inl e \<Rightarrow> Inl e
      | Inr (r1, ifc1) \<Rightarrow>
     (case addEndpointDescriptor K ifc1 1 (usb K USBOut) (usb K USBBulk)
             (usb K USBNoSynchronization) (usb K USBDataEndpoint)
             (packetsizeFromSpeed K speed_id) 0 of
        Inl e \<Rightarrow> Inl e
      | Inr (r2, ifc2) \<Rightarrow>
     (case slot_write (interfaces c1) i ifc2 of
        Inl e \<Rightarrow> Inl e
      | Inr ifs \<Rightarrow>
     (case slot_write (configurations s1) 0 (c1\<lparr>interfaces := ifs\<rparr>) of
        Inl e \<Rightarrow> Inl e
      | Inr cs \<Rightarrow> endConfiguration K 0 (s1\<lparr>configurations := cs\<rparr>)))))))))"

definition usb_get_configuration_descriptor ::
  "header \<Rightarrow> int \<Rightarrow> u8 \<Rightarrow> usb_driver \<Rightarrow> (int \<times> usb_driver) result" where
  "usb_get_configuration_descriptor K index speed_id s =
     (case (if index = 0
            then (case slot_read (configurations s) 0 of
                    Inl e \<Rightarrow> Inl e
                  | Inr c0 \<Rightarrow>
                      (case interfaces c0 of
                         Null \<Rightarrow> synthesize_interface K speed_id s
                       | _ \<Rightarrow> Inr s))
            else Inr s) of
        Inl e \<Rightarrow> Inl e
      | Inr s' \<Rightarrow> Inr (index, s'))"

definition releaseConfigurations :: "usb_driver \<Rightarrow> usb_driver result" where
  "releaseConfigurations s =
     (case configurations s of
        Null \<Rightarrow> Inr s
      | _ \<Rightarrow>
         (case for_int8 (unat (bNumConfigurations (deviceDescriptor s)))
                 (\<lambda>i. case slot_read (configurations s) i of
                         Inl e \<Rightarrow> Inl e
                       | Inr c \<Rightarrow>
                          (case for_int8 (unat (bNumInterfaces (cfg_descriptor c)))
                                  (\<lambda>j. case slot_read (interfaces c) j of
                                          Inl e \<Rightarrow> Inl e
                                        | Inr ifc \<Rightarrow> free (endpointDescriptors ifc)) 0 of
                             Inl e \<Rightarrow> Inl e
                           | Inr _ \<Rightarrow> free (interfaces c))) 0 of
            Inl e \<Rightarrow> Inl e
          | Inr _ \<Rightarrow>
             (case free (configurations s) of
                Inl e \<Rightarrow> Inl e
              | Inr _ \<Rightarrow>
                  Inr (s\<lparr>deviceDescriptor := (deviceDescriptor s)\<lparr>bNumConfigurations := 0\<rparr>,
                        configurations := Null\<rparr>))))"

section \<open>The endpoint handler registry\<close>

text \<open>
  \<^verbatim>\<open>endpoint_directions\<close> and \<^verbatim>\<open>endpoint_handlers\<close> are static arrays of
  \<open>USB_NUM_ENDPOINTS\<close> entries; \<^verbatim>\<open>endpoint\<close> is an \<^verbatim>\<open>int\<close>. The only bound the code
  checks is the upper one, so a negative \<^verbatim>\<open>endpoint\<close> reaches
  \<^verbatim>\<open>endpoint_directions[endpoint]\<close>, a read before the start of the array.
\<close>

definition usb_install_ep_handler ::
  "header \<Rightarrow> int \<Rightarrow> u32 \<Rightarrow> u32 \<Rightarrow> u32 \<Rightarrow> usb_driver \<Rightarrow> (int \<times> usb_driver) result" where
  "usb_install_ep_handler K endpoint direction handler' token' s =
     (if endpoint \<ge> int (USB_NUM_ENDPOINTS K) then Inr (- 1, s)
      else if endpoint < 0 then Inl OutOfBounds
      else if endpoint_directions s ! nat endpoint \<noteq> direction
              \<and> endpoint_directions s ! nat endpoint \<noteq> usb K USBBiDir
      then Inr (- 1, s)
      else if direction = usb K USBIn
      then Inr (0, s\<lparr>endpoint_handlers := (endpoint_handlers s)
                      [nat endpoint := (endpoint_handlers s ! nat endpoint)
                         \<lparr>ep_in := \<lparr>handler = handler', token = token'\<rparr>\<rparr>]\<rparr>)
      else if direction = usb K USBOut
      then Inr (0, s\<lparr>endpoint_handlers := (endpoint_handlers s)
                      [nat endpoint := (endpoint_handlers s ! nat endpoint)
                         \<lparr>ep_out := \<lparr>handler = handler', token = token'\<rparr>\<rparr>]\<rparr>)
      else Inr (- 1, s))"

section \<open>The controller's lifecycle\<close>

subsection \<open>Collaborators and registers\<close>

definition emit :: "hw_event \<Rightarrow> usb_driver \<Rightarrow> usb_driver" where
  "emit e s = s\<lparr>hw_trace := hw_trace s @ [e]\<rparr>"

text \<open>
  \<^verbatim>\<open>GET_REG(a)\<close> reads a hardware register: the value is the hardware's next answer.
  When no answer is left the run ends in \<open>NoResponse\<close>; a wait that the answers never
  end is therefore a run that does not return.
\<close>

definition GET_REG :: "u32 \<Rightarrow> usb_driver \<Rightarrow> (u32 \<times> usb_driver) result" where
  "GET_REG a s =
     (case hw_reads s of
        [] \<Rightarrow> Inl NoResponse
      | v # rest \<Rightarrow> Inr (v, s\<lparr>hw_reads := rest, hw_trace := hw_trace s @ [RegRead a v]\<rparr>))"

definition SET_REG :: "u32 \<Rightarrow> u32 \<Rightarrow> usb_driver \<Rightarrow> usb_driver result" where
  "SET_REG a v s = Inr (emit (RegWrite a v) s)"

text \<open>\<^verbatim>\<open>SET_REG(a, f(GET_REG(a)))\<close>.\<close>

definition modify_reg :: "u32 \<Rightarrow> (u32 \<Rightarrow> u32) \<Rightarrow> usb_driver \<Rightarrow> usb_driver result" where
  "modify_reg a f s =
     (case GET_REG a s of Inl e \<Rightarrow> Inl e | Inr (v, s') \<Rightarrow> SET_REG a (f v) s')"

text \<open>\<^verbatim>\<open>while(cond(GET_REG(a)));\<close>\<close>

function spin_while :: "(u32 \<Rightarrow> bool) \<Rightarrow> u32 \<Rightarrow> usb_driver \<Rightarrow> usb_driver result" where
  "spin_while cond a s =
     (case GET_REG a s of
        Inl e \<Rightarrow> Inl e
      | Inr (v, s') \<Rightarrow> if cond v then spin_while cond a s' else Inr s')"
  by pat_completeness auto
termination
  by (relation "measure (\<lambda>(cond, a, s). length (hw_reads s))")
     (auto simp: GET_REG_def split: list.splits)

definition power_ctrl :: "u32 \<Rightarrow> u32 \<Rightarrow> usb_driver \<Rightarrow> usb_driver result" where
  "power_ctrl device on_off s = Inr (emit (PowerCtrl device on_off) s)"

definition clock_gate_switch :: "u32 \<Rightarrow> u32 \<Rightarrow> usb_driver \<Rightarrow> usb_driver result" where
  "clock_gate_switch gate on_off s = Inr (emit (ClockGateSwitch gate on_off) s)"

definition udelay :: "u32 \<Rightarrow> usb_driver \<Rightarrow> usb_driver result" where
  "udelay d s = Inr (emit (Udelay d) s)"

definition interrupt_install :: "u32 \<Rightarrow> u32 \<Rightarrow> usb_driver \<Rightarrow> usb_driver result" where
  "interrupt_install irq token' s = Inr (emit (InterruptInstall irq token') s)"

definition interrupt_enable :: "u32 \<Rightarrow> usb_driver \<Rightarrow> usb_driver result" where
  "interrupt_enable irq s = Inr (emit (InterruptEnable irq) s)"

text \<open>
  \<^verbatim>\<open>InEPRegs[i].field = v\<close> and \<^verbatim>\<open>OutEPRegs[i].field = v\<close>: a write to a register of
  the bank that the pointer variable holds.
\<close>

definition ep_reg_write :: "ep_bank \<Rightarrow> nat \<Rightarrow> ep_field \<Rightarrow> u32 \<Rightarrow> usb_driver \<Rightarrow> usb_driver result" where
  "ep_reg_write bank i field v s =
     Inr (emit (EPRegWrite (case bank of InEP \<Rightarrow> InEPRegs s | OutEP \<Rightarrow> OutEPRegs s) i field v) s)"

definition change_state :: "u32 \<Rightarrow> usb_driver \<Rightarrow> usb_driver result" where
  "change_state new_state s = Inr (s\<lparr>usb_state := new_state\<rparr>)"

text \<open>Statements in sequence; the first fault ends the run.\<close>

fun steps :: "(usb_driver \<Rightarrow> usb_driver result) list \<Rightarrow> usb_driver \<Rightarrow> usb_driver result" where
  "steps [] s = Inr s"
| "steps (f # fs) s = (case f s of Inl e \<Rightarrow> Inl e | Inr s' \<Rightarrow> steps fs s')"

subsection \<open>usb_setup\<close>

definition set_endpoint_direction :: "header \<Rightarrow> nat \<Rightarrow> usb_driver \<Rightarrow> usb_driver result" where
  "set_endpoint_direction K i s =
     (if USB_EP_DIRECTION K i = plat K USB_ENDPOINT_DIRECTIONS_BIDIR
      then Inr (s\<lparr>endpoint_directions := (endpoint_directions s)[i := usb K USBBiDir]\<rparr>)
      else if USB_EP_DIRECTION K i = plat K USB_ENDPOINT_DIRECTIONS_IN
      then Inr (s\<lparr>endpoint_directions := (endpoint_directions s)[i := usb K USBIn]\<rparr>)
      else if USB_EP_DIRECTION K i = plat K USB_ENDPOINT_DIRECTIONS_OUT
      then Inr (s\<lparr>endpoint_directions := (endpoint_directions s)[i := usb K USBOut]\<rparr>)
      else Inr s)"

definition no_handler :: USBEndpointBidirHandlerInfo where
  "no_handler = \<lparr>ep_in = \<lparr>handler = 0, token = 0\<rparr>, ep_out = \<lparr>handler = 0, token = 0\<rparr>\<rparr>"

definition in_ep_interrupts :: "header \<Rightarrow> u32" where
  "in_ep_interrupts K =
     intr K USB_EPINT_INEPNakEff OR intr K USB_EPINT_INTknEPMis OR intr K USB_EPINT_INTknTXFEmp
     OR intr K USB_EPINT_TimeOUT OR intr K USB_EPINT_AHBErr OR intr K USB_EPINT_EPDisbld
     OR intr K USB_EPINT_XferCompl"

definition out_ep_interrupts :: "header \<Rightarrow> u32" where
  "out_ep_interrupts K =
     intr K USB_EPINT_OUTTknEPDis OR intr K USB_EPINT_SetUp OR intr K USB_EPINT_AHBErr
     OR intr K USB_EPINT_EPDisbld OR intr K USB_EPINT_XferCompl"

definition unmask_endpoint :: "header \<Rightarrow> nat \<Rightarrow> usb_driver \<Rightarrow> usb_driver result" where
  "unmask_endpoint K i =
     steps [ep_reg_write InEP i EP_interrupt (in_ep_interrupts K),
            ep_reg_write OutEP i EP_interrupt (out_ep_interrupts K)]"

text \<open>
  The body of \<^verbatim>\<open>usb_setup\<close> after its guard, statement by statement. \<^verbatim>\<open>memalign\<close>
  is taken to succeed, as the code takes it.
\<close>

definition usb_setup_body :: "header \<Rightarrow> (usb_driver \<Rightarrow> usb_driver result) list" where
  "usb_setup_body K =
     [\<lambda>s. Inr (s\<lparr>InEPRegs := reg K USB + reg K USB_INREGS\<rparr>),
      \<lambda>s. Inr (s\<lparr>OutEPRegs := reg K USB + reg K USB_OUTREGS\<rparr>),
      change_state (usb K USBStart),
      power_ctrl (plat K POWER_USB) (plat K ON),
      udelay (plat K USB_START_DELAYUS),
      steps (map (set_endpoint_direction K) [0 ..< USB_NUM_ENDPOINTS K]),
      \<lambda>s. Inr (s\<lparr>endpoint_handlers := replicate (USB_NUM_ENDPOINTS K) no_handler\<rparr>),
      clock_gate_switch (plat K USB_OTGCLOCKGATE) (plat K ON),
      clock_gate_switch (plat K USB_PHYCLOCKGATE) (plat K ON),
      clock_gate_switch (plat K EDRAM_CLOCKGATE) (plat K ON),
      modify_reg (reg K USB + reg K DCTL) (\<lambda>v. v OR flag K DCTL_SFTDISCONNECT),
      udelay (plat K USB_SFTDISCONNECT_DELAYUS),
      modify_reg (reg K USB + reg K USB_ONOFF) (\<lambda>v. v AND NOT (flag K USB_ONOFF_OFF)),
      udelay (plat K USB_ONOFFSTART_DELAYUS),
      SET_REG (reg K USB_PHY + reg K OPHYPWR) (flag K OPHYPWR_POWERON),
      udelay (plat K USB_PHYPWRPOWERON_DELAYUS),
      modify_reg (reg K USB_PHY + reg K OPHYCLK)
        (\<lambda>v. (v AND flag K OPHYCLK_CLKSEL_MASK) OR flag K OPHYCLK_CLKSEL_48MHZ),
      modify_reg (reg K USB_PHY + reg K ORSTCON) (\<lambda>v. v OR flag K ORSTCON_PHYSWRESET),
      udelay (plat K USB_RESET2_DELAYUS),
      modify_reg (reg K USB_PHY + reg K ORSTCON) (\<lambda>v. v AND NOT (flag K ORSTCON_PHYSWRESET)),
      udelay (plat K USB_RESET_DELAYUS),
      SET_REG (reg K USB + reg K GRSTCTL) (flag K GRSTCTL_CORESOFTRESET),
      spin_while (\<lambda>v. v AND flag K GRSTCTL_CORESOFTRESET = flag K GRSTCTL_CORESOFTRESET)
        (reg K USB + reg K GRSTCTL),
      spin_while (\<lambda>v. if GET_REG_signed K then 0 \<le> sint v else True)
        (reg K USB + reg K GRSTCTL),
      udelay (plat K USB_RESETWAITFINISH_DELAYUS),
      modify_reg (reg K USB + reg K DCTL) (\<lambda>v. v AND NOT (flag K DCTL_SFTDISCONNECT)),
      udelay (plat K USB_SFTCONNECT_DELAYUS),
      ep_reg_write InEP (USB_NUM_ENDPOINTS K) EP_interrupt (in_ep_interrupts K),
      ep_reg_write OutEP (USB_NUM_ENDPOINTS K) EP_interrupt (out_ep_interrupts K),
      steps (map (unmask_endpoint K) [0 ..< USB_NUM_ENDPOINTS K]),
      SET_REG (reg K USB + reg K GINTMSK) (intr K GINTMSK_NONE),
      SET_REG (reg K USB + reg K DIEPMSK) (intr K DIEPMSK_NONE),
      SET_REG (reg K USB + reg K DOEPMSK) (intr K DOEPMSK_NONE),
      interrupt_install (plat K USB_INTERRUPT) 0,
      interrupt_enable (plat K USB_INTERRUPT),
      \<lambda>s. Inr (initializeDescriptors s),
      \<lambda>s. if inBuffer s then Inr s else Inr ((emit (Memalign 0x40 0x80) s)\<lparr>inBuffer := True\<rparr>),
      \<lambda>s. if outBuffer s then Inr s else Inr ((emit (Memalign 0x40 0x80) s)\<lparr>outBuffer := True\<rparr>),
      SET_REG (reg K USB + reg K GAHBCFG)
        (flag K GAHBCFG_DMAEN OR flag K GAHBCFG_BSTLEN_INCR8 OR flag K GAHBCFG_MASKINT),
      SET_REG (reg K USB + reg K USB_UNKNOWNREG1) (flag K USB_UNKNOWNREG1_START),
      SET_REG (reg K USB + reg K DCFG) (flag K DCFG_NZSTSOUTHSHK),
      modify_reg (reg K USB + reg K DCFG) (\<lambda>v. v AND NOT (flag K DCFG_DEVICEADDRMSK)),
      ep_reg_write InEP 0 EP_control (flag K USB_EPCON_ACTIVE),
      ep_reg_write OutEP 0 EP_control (flag K USB_EPCON_ACTIVE),
      SET_REG (reg K USB + reg K GRXFSIZ) (flag K RX_FIFO_DEPTH),
      SET_REG (reg K USB + reg K GNPTXFSIZ)
        (push_bit 8 (flag K TX_FIFO_DEPTH) OR flag K TX_FIFO_STARTADDR),
      steps (map (unmask_endpoint K) [0 ..< USB_NUM_ENDPOINTS K]),
      SET_REG (reg K USB + reg K GINTMSK)
        (intr K GINTMSK_OTG OR intr K GINTMSK_SUSPEND OR intr K GINTMSK_RESET
         OR intr K GINTMSK_INEP OR intr K GINTMSK_OEP OR intr K GINTMSK_DISCONNECT),
      SET_REG (reg K USB + reg K DAINTMSK) (intr K DAINTMSK_ALL),
      SET_REG (reg K USB + reg K DOEPMSK)
        (intr K DOEPMSK_XFERCOMPL OR intr K DOEPMSK_SETUP OR intr K DOEPMSK_BACK2BACKSETUP),
      SET_REG (reg K USB + reg K DIEPMSK)
        (intr K DIEPMSK_XFERCOMPL OR intr K DIEPMSK_AHBERR OR intr K DIEPMSK_TIMEOUT),
      SET_REG (reg K USB + reg K DIEPMSK)
        (intr K DIEPMSK_XFERCOMPL OR intr K DIEPMSK_AHBERR OR intr K DIEPMSK_TIMEOUT),
      ep_reg_write InEP 0 EP_interrupt (intr K USB_EPINT_ALL),
      ep_reg_write OutEP 0 EP_interrupt (intr K USB_EPINT_ALL),
      SET_REG (reg K USB + reg K DCTL)
        (flag K DCTL_PROGRAMDONE + flag K DCTL_CGOUTNAK + flag K DCTL_CGNPINNAK),
      udelay (plat K USB_PROGRAMDONE_DELAYUS),
      modify_reg (reg K USB + reg K GOTGCTL) (\<lambda>v. v OR flag K GOTGCTL_SESSIONREQUEST),
      change_state (usb K USBPowered),
      \<lambda>s. Inr (s\<lparr>usb_inited := True\<rparr>)]"

definition usb_setup :: "header \<Rightarrow> usb_driver \<Rightarrow> (int \<times> usb_driver) result" where
  "usb_setup K s =
     (if usb_inited s then Inr (0, s)
      else (case steps (usb_setup_body K) s of
              Inl e \<Rightarrow> Inl e
            | Inr s' \<Rightarrow> Inr (0, s')))"

subsection \<open>usb_shutdown\<close>

definition usb_shutdown_body :: "header \<Rightarrow> (usb_driver \<Rightarrow> usb_driver result) list" where
  "usb_shutdown_body K =
     [power_ctrl (plat K POWER_USB) (plat K ON),
      clock_gate_switch (plat K USB_OTGCLOCKGATE) (plat K ON),
      clock_gate_switch (plat K USB_PHYCLOCKGATE) (plat K ON),
      modify_reg (reg K USB + reg K USB_ONOFF) (\<lambda>v. v OR flag K USB_ONOFF_OFF),
      SET_REG (reg K USB_PHY + reg K OPHYPWR)
        (flag K OPHYPWR_FORCESUSPEND OR flag K OPHYPWR_PLLPOWERDOWN
         OR flag K OPHYPWR_XOPOWERDOWN OR flag K OPHYPWR_ANALOGPOWERDOWN
         OR flag K OPHYPWR_UNKNOWNPOWERDOWN),
      SET_REG (reg K USB_PHY + reg K ORSTCON)
        (flag K ORSTCON_PHYSWRESET OR flag K ORSTCON_LINKSWRESET
         OR flag K ORSTCON_PHYLINKSWRESET),
      udelay (plat K USB_RESET_DELAYUS),
      clock_gate_switch (plat K USB_OTGCLOCKGATE) (plat K OFF),
      clock_gate_switch (plat K USB_PHYCLOCKGATE) (plat K OFF),
      power_ctrl (plat K POWER_USB) (plat K OFF),
      releaseConfigurations,
      releaseStringDescriptors]"

definition usb_shutdown :: "header \<Rightarrow> usb_driver \<Rightarrow> (int \<times> usb_driver) result" where
  "usb_shutdown K s =
     (case steps (usb_shutdown_body K) s of
        Inl e \<Rightarrow> Inl e
      | Inr s' \<Rightarrow> Inr (0, s'))"

section \<open>A header and a starting state to run the model on\<close>

text \<open>
  One possible set of headers, used only where a theorem evaluates the model on a
  concrete input: descriptor sizes and types of the USB 2.0 chapter 9 layouts (packed
  structures), an enumeration \<open>USBOut = 0, USBIn = 1, USBBiDir = 2\<close>, six endpoints
  of which endpoint 0 is bidirectional, and register numbers in the style of the
  Synopsys OTG core. The general theorems below hold for every header.
\<close>

fun sample_reg :: "usb_reg \<Rightarrow> u32" where
  "sample_reg USB = 0x38400000"
| "sample_reg USB_PHY = 0x3C400000"
| "sample_reg USB_INREGS = 0x900"
| "sample_reg USB_OUTREGS = 0xB00"
| "sample_reg DCTL = 0x804"
| "sample_reg USB_ONOFF = 0xE00"
| "sample_reg OPHYPWR = 0x0"
| "sample_reg OPHYCLK = 0x4"
| "sample_reg ORSTCON = 0x8"
| "sample_reg GRSTCTL = 0x10"
| "sample_reg GINTMSK = 0x18"
| "sample_reg DIEPMSK = 0x810"
| "sample_reg DOEPMSK = 0x814"
| "sample_reg DAINTMSK = 0x81C"
| "sample_reg GAHBCFG = 0x8"
| "sample_reg USB_UNKNOWNREG1 = 0x5C"
| "sample_reg DCFG = 0x800"
| "sample_reg GRXFSIZ = 0x24"
| "sample_reg GNPTXFSIZ = 0x28"
| "sample_reg GOTGCTL = 0x0"

fun sample_flag :: "usb_flag \<Rightarrow> u32" where
  "sample_flag DCTL_SFTDISCONNECT = 0x2"
| "sample_flag DCTL_PROGRAMDONE = 0x800"
| "sample_flag DCTL_CGOUTNAK = 0x400"
| "sample_flag DCTL_CGNPINNAK = 0x100"
| "sample_flag USB_ONOFF_OFF = 0x2"
| "sample_flag OPHYPWR_POWERON = 0x0"
| "sample_flag OPHYPWR_FORCESUSPEND = 0x1"
| "sample_flag OPHYPWR_PLLPOWERDOWN = 0x2"
| "sample_flag OPHYPWR_XOPOWERDOWN = 0x4"
| "sample_flag OPHYPWR_ANALOGPOWERDOWN = 0x8"
| "sample_flag OPHYPWR_UNKNOWNPOWERDOWN = 0x10"
| "sample_flag OPHYCLK_CLKSEL_MASK = 0xFFFFFFFC"
| "sample_flag OPHYCLK_CLKSEL_48MHZ = 0x0"
| "sample_flag ORSTCON_PHYSWRESET = 0x1"
| "sample_flag ORSTCON_LINKSWRESET = 0x2"
| "sample_flag ORSTCON_PHYLINKSWRESET = 0x4"
| "sample_flag GRSTCTL_CORESOFTRESET = 0x1"
| "sample_flag GAHBCFG_DMAEN = 0x20"
| "sample_flag GAHBCFG_BSTLEN_INCR8 = 0xA"
| "sample_flag GAHBCFG_MASKINT = 0x1"
| "sample_flag USB_UNKNOWNREG1_START = 0x1708"
| "sample_flag DCFG_NZSTSOUTHSHK = 0x4"
| "sample_flag DCFG_DEVICEADDRMSK = 0x7F0"
| "sample_flag GOTGCTL_SESSIONREQUEST = 0x2"
| "sample_flag RX_FIFO_DEPTH = 0x1C0"
| "sample_flag TX_FIFO_DEPTH = 0x1C0"
| "sample_flag TX_FIFO_STARTADDR = 0x200"
| "sample_flag USB_EPCON_ACTIVE = 0x8000"

fun sample_intr :: "usb_mask \<Rightarrow> u32" where
  "sample_intr USB_EPINT_INEPNakEff = 0x40"
| "sample_intr USB_EPINT_INTknEPMis = 0x20"
| "sample_intr USB_EPINT_INTknTXFEmp = 0x10"
| "sample_intr USB_EPINT_TimeOUT = 0x8"
| "sample_intr USB_EPINT_AHBErr = 0x4"
| "sample_intr USB_EPINT_EPDisbld = 0x2"
| "sample_intr USB_EPINT_XferCompl = 0x1"
| "sample_intr USB_EPINT_OUTTknEPDis = 0x10"
| "sample_intr USB_EPINT_SetUp = 0x8"
| "sample_intr USB_EPINT_ALL = 0xFFFFFFFF"
| "sample_intr GINTMSK_NONE = 0x0"
| "sample_intr GINTMSK_OTG = 0x4"
| "sample_intr GINTMSK_SUSPEND = 0x800"
| "sample_intr GINTMSK_RESET = 0x1000"
| "sample_intr GINTMSK_INEP = 0x40000"
| "sample_intr GINTMSK_OEP = 0x80000"
| "sample_intr GINTMSK_DISCONNECT = 0x20000000"
| "sample_intr DIEPMSK_NONE = 0x0"
| "sample_intr DIEPMSK_XFERCOMPL = 0x1"
| "sample_intr DIEPMSK_AHBERR = 0x4"
| "sample_intr DIEPMSK_TIMEOUT = 0x8"
| "sample_intr DOEPMSK_NONE = 0x0"
| "sample_intr DOEPMSK_XFERCOMPL = 0x1"
| "sample_intr DOEPMSK_SETUP = 0x8"
| "sample_intr DOEPMSK_BACK2BACKSETUP = 0x40"
| "sample_intr DAINTMSK_ALL = 0xFFFFFFFF"

fun sample_plat :: "platform_const \<Rightarrow> u32" where
  "sample_plat USB_START_DELAYUS = 10000"
| "sample_plat USB_SFTDISCONNECT_DELAYUS = 4000"
| "sample_plat USB_ONOFFSTART_DELAYUS = 100"
| "sample_plat USB_PHYPWRPOWERON_DELAYUS = 10"
| "sample_plat USB_RESET2_DELAYUS = 20"
| "sample_plat USB_RESET_DELAYUS = 1000"
| "sample_plat USB_RESETWAITFINISH_DELAYUS = 1000"
| "sample_plat USB_SFTCONNECT_DELAYUS = 250"
| "sample_plat USB_PROGRAMDONE_DELAYUS = 10"
| "sample_plat POWER_USB = 0x200"
| "sample_plat ON = 1"
| "sample_plat OFF = 0"
| "sample_plat USB_OTGCLOCKGATE = 0x2"
| "sample_plat USB_PHYCLOCKGATE = 0x23"
| "sample_plat EDRAM_CLOCKGATE = 0x1B"
| "sample_plat USB_INTERRUPT = 0x13"
| "sample_plat USB_ENDPOINT_DIRECTIONS_BIDIR = 0"
| "sample_plat USB_ENDPOINT_DIRECTIONS_IN = 1"
| "sample_plat USB_ENDPOINT_DIRECTIONS_OUT = 2"

fun sample_usb :: "usb_const \<Rightarrow> u32" where
  "sample_usb USBStart = 0"
| "sample_usb USBPowered = 1"
| "sample_usb USBConfigured = 4"
| "sample_usb USBOut = 0"
| "sample_usb USBIn = 1"
| "sample_usb USBBiDir = 2"
| "sample_usb USBBulk = 2"
| "sample_usb USBNoSynchronization = 0"
| "sample_usb USBDataEndpoint = 0"
| "sample_usb USBDeviceDescriptorType = 1"
| "sample_usb USBConfigurationDescriptorType = 2"
| "sample_usb USBStringDescriptorType = 3"
| "sample_usb USBInterfaceDescriptorType = 4"
| "sample_usb USBEndpointDescriptorType = 5"
| "sample_usb USB_2_0 = 0x0200"
| "sample_usb USB_MAX_PACKETSIZE = 64"
| "sample_usb VENDOR_APPLE = 0x05AC"
| "sample_usb PRODUCT_IPHONE = 0x1280"
| "sample_usb DEVICE_IPHONE = 0x1103"
| "sample_usb USB_LANGID_ENGLISH_US = 0x0409"
| "sample_usb OPENIBOOT_INTERFACE_CLASS = 0xFF"
| "sample_usb OPENIBOOT_INTERFACE_SUBCLASS = 0xFF"
| "sample_usb OPENIBOOT_INTERFACE_PROTOCOL = 0x51"
| "sample_usb USB_HIGHSPEED = 0"
| "sample_usb USB_FULLSPEED = 1"
| "sample_usb USB_LOWSPEED = 2"
| "sample_usb USB_FULLSPEED_48_MHZ = 3"

fun sample_sizeof :: "usb_struct \<Rightarrow> nat" where
  "sample_sizeof USBDeviceDescriptor_t = 18"
| "sample_sizeof USBConfigurationDescriptor_t = 9"
| "sample_sizeof USBInterfaceDescriptor_t = 9"
| "sample_sizeof USBEndpointDescriptor_t = 7"
| "sample_sizeof USBStringDescriptor_t = 2"
| "sample_sizeof USBFirstStringDescriptor_t = 2"

fun sample_ep_direction :: "nat \<Rightarrow> u32" where
  "sample_ep_direction 0 = 0"
| "sample_ep_direction (Suc 0) = 1"
| "sample_ep_direction (Suc (Suc 0)) = 2"
| "sample_ep_direction (Suc (Suc (Suc 0))) = 1"
| "sample_ep_direction (Suc (Suc (Suc (Suc 0)))) = 2"
| "sample_ep_direction (Suc (Suc (Suc (Suc (Suc n))))) = 1"

definition sample_header :: header where
  "sample_header =
     \<lparr>reg = sample_reg, flag = sample_flag, intr = sample_intr, plat = sample_plat,
      usb = sample_usb, sizeof = sample_sizeof, USB_NUM_ENDPOINTS = 6,
      USB_EP_DIRECTION = sample_ep_direction, GET_REG_signed = True\<rparr>"

text \<open>
  The driver's variables as the C start-up leaves objects of static storage: all zero,
  all pointers null. \<open>answers\<close> are the values that the hardware will return to the
  register reads to come.
\<close>

definition static_init :: "header \<Rightarrow> u32 list \<Rightarrow> usb_driver" where
  "static_init K answers =
     \<lparr>usb_inited = False,
      usb_state = 0,
      endpoint_directions = replicate (USB_NUM_ENDPOINTS K) 0,
      endpoint_handlers = replicate (USB_NUM_ENDPOINTS K) no_handler,
      InEPRegs = 0,
      OutEPRegs = 0,
      deviceDescriptor =
        \<lparr>dd_bLength = 0, dd_bDescriptorType = 0, bcdUSB = 0, bDeviceClass = 0,
         bDeviceSubClass = 0, bDeviceProtocol = 0, bMaxPacketSize = 0, idVendor = 0,
         idProduct = 0, bcdDevice = 0, iManufacturer = 0, iProduct = 0,
         iSerialNumber = 0, bNumConfigurations = 0\<rparr>,
      numStringDescriptors = 0,
      stringDescriptors = Null,
      firstStringDescriptor = None,
      configurations = Null,
      inBuffer = False,
      outBuffer = False,
      hw_reads = answers,
      hw_trace = []\<rparr>"

text \<open>An interface as \<^verbatim>\<open>addInterfaceDescriptor\<close> leaves it: no endpoint yet.\<close>

definition bare_interface :: USBInterface where
  "bare_interface =
     \<lparr>if_descriptor =
        \<lparr>id_bLength = 9, id_bDescriptorType = 4, bInterfaceNumber = 0, bAlternateSetting = 0,
         bNumEndpoints = 0, bInterfaceClass = 0xFF, bInterfaceSubClass = 0xFF,
         bInterfaceProtocol = 0x51, iInterface = 0\<rparr>,
      endpointDescriptors = Null\<rparr>"

section \<open>Observations and sample states\<close>

text \<open>
  The table entry of a pair (endpoint, direction): the \<^verbatim>\<open>in\<close> member for
  \<^verbatim>\<open>USBIn\<close>, the \<^verbatim>\<open>out\<close> member otherwise.
\<close>

definition handler_entry :: "header \<Rightarrow> usb_driver \<Rightarrow> int \<Rightarrow> u32 \<Rightarrow> USBEndpointHandlerInfo" where
  "handler_entry K s endpoint direction =
     (if direction = usb K USBIn then ep_in (endpoint_handlers s ! nat endpoint)
      else ep_out (endpoint_handlers s ! nat endpoint))"

text \<open>
  The starting state with its endpoint directions as \<^verbatim>\<open>usb_setup\<close> would set them
  from the sample header: endpoint 0 bidirectional, 1, 3 and 5 in, 2 and 4 out.
\<close>

definition sample_driver :: usb_driver where
  "sample_driver =
     (static_init sample_header [])\<lparr>endpoint_directions := [2, 1, 0, 1, 0, 1]\<rparr>"

text \<open>
  Answers of the hardware under which \<^verbatim>\<open>usb_setup\<close> returns: the soft-reset bit reads
  as set once and then clear, and the second wait sees a value with bit 31 set on its
  third read. One answer is left for \<^verbatim>\<open>usb_shutdown\<close>.
\<close>

definition sample_answers :: "u32 list" where
  "sample_answers = [0, 0, 0, 0, 0, 1, 0, 0, 5, 0x80000000, 0, 0, 0, 0]"

text \<open>The driver after \<^verbatim>\<open>usb_setup\<close> has returned from the starting state.\<close>

definition sample_up :: usb_driver where
  "sample_up =
     (case usb_setup sample_header (static_init sample_header sample_answers) of
        Inr (r, s) \<Rightarrow> s
      | Inl e \<Rightarrow> static_init sample_header [])"

text \<open>
  The driver after \<^verbatim>\<open>usb_get_device_descriptor()\<close> and then
  \<^verbatim>\<open>usb_get_configuration_descriptor(0, USB_HIGHSPEED)\<close>, where the bytes that
  \<^verbatim>\<open>realloc\<close> handed out were zero.
\<close>

definition sample_enumerated :: usb_driver where
  "sample_enumerated =
     (case usb_get_device_descriptor sample_header True sample_up of
        Inr s \<Rightarrow> s
      | Inl e \<Rightarrow> sample_up)"

definition sample_configured :: usb_driver where
  "sample_configured =
     (case usb_get_configuration_descriptor sample_header 0 0 sample_enumerated of
        Inr (d, s) \<Rightarrow> s
      | Inl e \<Rightarrow> sample_enumerated)"

text \<open>\<^verbatim>\<open>configurations[c].interfaces[i].endpointDescriptors[e]\<close>\<close>

definition endpoint_at :: "usb_driver \<Rightarrow> nat \<Rightarrow> nat \<Rightarrow> nat \<Rightarrow> USBEndpointDescriptor result" where
  "endpoint_at s c i e =
     (case slot_read (configurations s) c of
        Inl x \<Rightarrow> Inl x
      | Inr cfg \<Rightarrow>
         (case slot_read (interfaces cfg) i of
            Inl x \<Rightarrow> Inl x
          | Inr ifc \<Rightarrow> slot_read (endpointDescriptors ifc) e))"

text \<open>
  The packet sizes of the two endpoints of interface 0 after
  \<^verbatim>\<open>usb_get_configuration_descriptor(0, speed_id)\<close>.
\<close>

definition synthesized_packet_sizes :: "header \<Rightarrow> u8 \<Rightarrow> usb_driver \<Rightarrow> (u16 \<times> u16) result" where
  "synthesized_packet_sizes K speed_id s =
     (case usb_get_configuration_descriptor K 0 speed_id s of
        Inl x \<Rightarrow> Inl x
      | Inr (d, s') \<Rightarrow>
         (case endpoint_at s' 0 0 0 of
            Inl x \<Rightarrow> Inl x
          | Inr e0 \<Rightarrow>
             (case endpoint_at s' 0 0 1 of
                Inl x \<Rightarrow> Inl x
              | Inr e1 \<Rightarrow> Inr (wMaxPacketSize e0, wMaxPacketSize e1))))"

text \<open>\<^verbatim>\<open>configurations[cfg].descriptor.wTotalLength\<close> after \<^verbatim>\<open>endConfiguration(&configurations[cfg])\<close>.\<close>

definition finalized_total_length :: "header \<Rightarrow> nat \<Rightarrow> usb_driver \<Rightarrow> u16 result" where
  "finalized_total_length K cfg s =
     (case endConfiguration K cfg s of
        Inl x \<Rightarrow> Inl x
      | Inr s' \<Rightarrow>
         (case slot_read (configurations s') cfg of
            Inl x \<Rightarrow> Inl x
          | Inr c \<Rightarrow> Inr (wTotalLength (cfg_descriptor c))))"

text \<open>
  A device with two configurations: the first as \<^verbatim>\<open>addConfiguration\<close> leaves it, with
  no interface; the second with one interface of two bulk endpoints, added by
  \<^verbatim>\<open>addInterfaceDescriptor\<close> and \<^verbatim>\<open>addEndpointDescriptor\<close>, and not yet finalized.
\<close>

definition two_configurations :: usb_driver where
  "two_configurations =
     (static_init sample_header [])
       \<lparr>deviceDescriptor :=
          (deviceDescriptor (static_init sample_header []))\<lparr>bNumConfigurations := 2\<rparr>,
        configurations :=
          Array
            [Some \<lparr>cfg_descriptor =
                     \<lparr>cd_bLength = 9, cd_bDescriptorType = 2, wTotalLength = 0,
                      bNumInterfaces = 0, bConfigurationValue = 1, iConfiguration = 0,
                      cd_bmAttributes = 0x80, bMaxPower = 250\<rparr>,
                   interfaces = Null\<rparr>,
             Some \<lparr>cfg_descriptor =
                     \<lparr>cd_bLength = 9, cd_bDescriptorType = 2, wTotalLength = 0,
                      bNumInterfaces = 1, bConfigurationValue = 2, iConfiguration = 0,
                      cd_bmAttributes = 0x80, bMaxPower = 250\<rparr>,
                   interfaces =
                     Array
                       [Some \<lparr>if_descriptor =
                                \<lparr>id_bLength = 9, id_bDescriptorType = 4,
                                 bInterfaceNumber = 0, bAlternateSetting = 0,
                                 bNumEndpoints = 2, bInterfaceClass = 0xFF,
                                 bInterfaceSubClass = 0xFF, bInterfaceProtocol = 0x51,
                                 iInterface = 0\<rparr>,
                              endpointDescriptors =
                                Array
                                  [Some \<lparr>ed_bLength = 7, ed_bDescriptorType = 5,
                                          bEndpointAddress = 0x81, ed_bmAttributes = 2,
                                          wMaxPacketSize = 512, bInterval = 0\<rparr>,
                                   Some \<lparr>ed_bLength = 7, ed_bDescriptorType = 5,
                                          bEndpointAddress = 0x01, ed_bmAttributes = 2,
                                          wMaxPacketSize = 512, bInterval = 0\<rparr>]\<rparr>]\<rparr>]\<rparr>"

text \<open>
  Two strings interned into the empty table, and what \<^verbatim>\<open>usb_get_string_descriptor\<close>
  then returns for the indices 0, 1 and 2.
\<close>

definition two_strings ::
  "(u8 \<times> u8 \<times> string_descriptor_ref result \<times> string_descriptor_ref result
      \<times> string_descriptor_ref result) result" where
  "two_strings =
     (case addStringDescriptor sample_header ''Apple Inc.'' (static_init sample_header []) of
        Inl x \<Rightarrow> Inl x
      | Inr (i1, s1) \<Rightarrow>
         (case addStringDescriptor sample_header ''OpenIBoot Mode Configuration'' s1 of
            Inl x \<Rightarrow> Inl x
          | Inr (i2, s2) \<Rightarrow>
              Inr (i1, i2, usb_get_string_descriptor s2 0, usb_get_string_descriptor s2 1,
                   usb_get_string_descriptor s2 2)))"

text \<open>
  The descriptor tree: the device descriptor, the configurations with their interfaces
  and endpoints, the interned strings with their count, and the language ids.
\<close>

definition descriptor_tree ::
  "usb_driver \<Rightarrow> USBDeviceDescriptor \<times> USBConfiguration cptr \<times> u8 \<times> USBStringDescriptor cptr
     \<times> u16 option list option" where
  "descriptor_tree s =
     (deviceDescriptor s, configurations s, numStringDescriptors s, stringDescriptors s,
      map_option wLANGID (firstStringDescriptor s))"

text \<open>\<open>release_all\<close>: the two release calls that end \<^verbatim>\<open>usb_shutdown\<close>.\<close>

definition release_all :: "usb_driver \<Rightarrow> usb_driver result" where
  "release_all s =
     (case releaseConfigurations s of
        Inl x \<Rightarrow> Inl x
      | Inr s' \<Rightarrow> releaseStringDescriptors s')"

text \<open>
  The life of the descriptor registry in one run: \<^verbatim>\<open>usb_get_device_descriptor\<close>
  builds the tree, the two release calls free it, and \<^verbatim>\<open>usb_get_device_descriptor\<close>
  builds it again. \<open>z1\<close> and \<open>z2\<close> say whether the bytes that \<^verbatim>\<open>realloc\<close> hands out
  are zero at the first and at the second build. The result is the state after the first
  build and the state after the second.
\<close>

definition build_release_rebuild ::
  "header \<Rightarrow> bool \<Rightarrow> bool \<Rightarrow> usb_driver \<Rightarrow> (usb_driver \<times> usb_driver) result" where
  "build_release_rebuild K z1 z2 s =
     (case usb_get_device_descriptor K z1 s of
        Inl x \<Rightarrow> Inl x
      | Inr first \<Rightarrow>
         (case release_all first of
            Inl x \<Rightarrow> Inl x
          | Inr released \<Rightarrow>
             (case usb_get_device_descriptor K z2 released of
                Inl x \<Rightarrow> Inl x
              | Inr again \<Rightarrow> Inr (first, again))))"

text \<open>What each statement of \<^verbatim>\<open>usb_shutdown\<close> leaves alone.\<close>

definition guard_and_handlers ::
  "usb_driver \<Rightarrow> bool \<times> USBEndpointBidirHandlerInfo list" where
  "guard_and_handlers s = (usb_inited s, endpoint_handlers s)"

text \<open>
  The slots of the string table and of the language-id list, and the table's
  allocation agreeing with its counter: \<^verbatim>\<open>stringDescriptors\<close> is null or an
  allocation, of \<^verbatim>\<open>numStringDescriptors\<close> slots.
\<close>

definition string_slots :: "usb_driver \<Rightarrow> USBStringDescriptor option list" where
  "string_slots s = (case stringDescriptors s of Array xs \<Rightarrow> xs | _ \<Rightarrow> [])"

definition lang_ids :: "usb_driver \<Rightarrow> u16 option list" where
  "lang_ids s = (case firstStringDescriptor s of None \<Rightarrow> [] | Some f \<Rightarrow> wLANGID f)"

definition strings_wf :: "usb_driver \<Rightarrow> bool" where
  "strings_wf s \<longleftrightarrow>
     stringDescriptors s \<noteq> Wild \<and> length (string_slots s) = unat (numStringDescriptors s)"

text \<open>The header bytes of the first string descriptor, \<open>None\<close> where never written.\<close>

definition lang_header :: "usb_driver \<Rightarrow> u8 option \<times> u8 option" where
  "lang_header s =
     (case firstStringDescriptor s of
        None \<Rightarrow> (None, None)
      | Some f \<Rightarrow> (fs_bLength f, fs_bDescriptorType f))"

text \<open>
  The descriptor tree that \<^verbatim>\<open>usb_get_device_descriptor\<close> builds when the registry and
  the string table are empty (lemma \<open>blank_build\<close>): the device descriptor with its
  three string indices, one configuration without interfaces whose \<^verbatim>\<open>interfaces\<close>
  pointer is what the allocator left there, four strings and four language ids.
\<close>

definition built_tree ::
  "header \<Rightarrow> bool \<Rightarrow> USBDeviceDescriptor \<times> USBConfiguration cptr \<times> u8
     \<times> USBStringDescriptor cptr \<times> u16 option list option" where
  "built_tree K z =
     (\<lparr>dd_bLength = of_nat (sizeof K USBDeviceDescriptor_t),
       dd_bDescriptorType = ucast (usb K USBDeviceDescriptorType),
       bcdUSB = ucast (usb K USB_2_0),
       bDeviceClass = 0, bDeviceSubClass = 0, bDeviceProtocol = 0,
       bMaxPacketSize = ucast (usb K USB_MAX_PACKETSIZE),
       idVendor = ucast (usb K VENDOR_APPLE),
       idProduct = ucast (usb K PRODUCT_IPHONE),
       bcdDevice = ucast (usb K DEVICE_IPHONE),
       iManufacturer = 1, iProduct = 2, iSerialNumber = 3, bNumConfigurations = 1\<rparr>,
      Array [Some \<lparr>cfg_descriptor =
               \<lparr>cd_bLength = of_nat (sizeof K USBConfigurationDescriptor_t),
                cd_bDescriptorType = ucast (usb K USBConfigurationDescriptorType),
                wTotalLength = 0, bNumInterfaces = 0, bConfigurationValue = 1,
                iConfiguration = 4, cd_bmAttributes = 0x80, bMaxPower = 250\<rparr>,
               interfaces = (if z then Null else Wild)\<rparr>],
      4,
      Array [Some \<lparr>sd_bLength = of_nat (sizeof K USBStringDescriptor_t + 10),
                    sd_bDescriptorType = ucast (usb K USBStringDescriptorType),
                    bString = ''Apple Inc.''\<rparr>,
             Some \<lparr>sd_bLength = of_nat (sizeof K USBStringDescriptor_t + 36),
                    sd_bDescriptorType = ucast (usb K USBStringDescriptorType),
                    bString = ''Apple Mobile Device (OpenIBoot Mode)''\<rparr>,
             Some \<lparr>sd_bLength = of_nat (sizeof K USBStringDescriptor_t + 0),
                    sd_bDescriptorType = ucast (usb K USBStringDescriptorType),
                    bString = []\<rparr>,
             Some \<lparr>sd_bLength = of_nat (sizeof K USBStringDescriptor_t + 28),
                    sd_bDescriptorType = ucast (usb K USBStringDescriptorType),
                    bString = ''OpenIBoot Mode Configuration''\<rparr>],
      Some [Some (ucast (usb K USB_LANGID_ENGLISH_US)), Some (ucast (usb K USB_LANGID_ENGLISH_US)),
            Some (ucast (usb K USB_LANGID_ENGLISH_US)), Some (ucast (usb K USB_LANGID_ENGLISH_US))])"

text \<open>
  The states the driver can be in: the start-up state, and every state in which one of
  the five entry points of the file returns when called in such a state. Between calls
  the hardware may line up further answers.
\<close>

inductive reachable :: "header \<Rightarrow> usb_driver \<Rightarrow> bool" for K :: header where
  at_start: "reachable K (static_init K answers)"
| more_input: "reachable K s \<Longrightarrow> reachable K (s\<lparr>hw_reads := hw_reads s @ more_answers\<rparr>)"
| after_setup: "reachable K s \<Longrightarrow> usb_setup K s = Inr (r, s') \<Longrightarrow> reachable K s'"
| after_device: "reachable K s \<Longrightarrow> usb_get_device_descriptor K zeroed s = Inr s' \<Longrightarrow> reachable K s'"
| after_configuration:
    "reachable K s \<Longrightarrow> usb_get_configuration_descriptor K index speed_id s = Inr (d, s') \<Longrightarrow>
     reachable K s'"
| after_install:
    "reachable K s \<Longrightarrow> usb_install_ep_handler K endpoint direction h t s = Inr (r, s') \<Longrightarrow>
     reachable K s'"
| after_shutdown: "reachable K s \<Longrightarrow> usb_shutdown K s = Inr (r, s') \<Longrightarrow> reachable K s'"

text \<open>
  What holds in all of them (theorem \<open>reachable_invariant\<close>): the string table agrees
  with its counter, the header bytes of the first string descriptor were never written,
  and the handler table has \<open>USB_NUM_ENDPOINTS\<close> entries.
\<close>

definition driver_inv :: "header \<Rightarrow> usb_driver \<Rightarrow> bool" where
  "driver_inv K s \<longleftrightarrow>
     strings_wf s \<and> lang_header s = (None, None)
     \<and> length (endpoint_handlers s) = USB_NUM_ENDPOINTS K"

text \<open>The two loops are unfolded on demand only.\<close>

declare spin_while.simps [simp del] for_int8.simps [simp del]

section \<open>Endpoint descriptors\<close>

lemma three_mask: "(3 :: 'a::len word) = mask 2"
  by (simp add: mask_eq_exp_minus_1)

lemma x7f_mask: "(0x7F :: 'a::len word) = mask 7"
  by (simp add: mask_eq_exp_minus_1)

lemma bit_128: "n < 8 \<Longrightarrow> 7 \<le> n \<Longrightarrow> bit (128 :: int) n"
  by (cases "n = 7") auto

text \<open>The address byte, computed in 32 bits and stored in 8, is what 8 bits compute.\<close>

lemma address_ucast:
  "(ucast ((ucast (endpoint :: u8) AND (3 :: u32)) OR push_bit 7 ((direction :: u32) AND 1)) :: u8)
     = (endpoint AND 3) OR push_bit 7 (ucast (direction AND 1))"
  unfolding three_mask
  by (rule bit_word_eqI) (auto simp: bit_simps bit_128)

lemma address_low_bits:
  "unat ((((endpoint :: u8) AND 3) OR push_bit 7 (ucast ((direction :: u32) AND 1))) AND 0x7F)
     = unat endpoint mod 4"
proof -
  have "(((endpoint AND 3) OR push_bit 7 (ucast (direction AND 1))) AND 0x7F)
          = endpoint AND mask 2"
    unfolding three_mask x7f_mask
    by (rule bit_word_eqI) (auto simp: bit_simps)
  then show ?thesis
    by (simp add: unsigned_take_bit_eq take_bit_eq_mod unat_mod_distrib flip: take_bit_eq_mask)
qed

lemma address_bit7:
  "bit (((endpoint :: u8) AND 3) OR push_bit 7 (ucast ((direction :: u32) AND 1))) 7
     = bit direction 0"
  unfolding three_mask
  by (auto simp: bit_simps)

text \<open>
  C10. Whenever \<^verbatim>\<open>addEndpointDescriptor\<close> accepts a call (the direction is at most 2
  and the call returns), the descriptor it stores in the new slot has
  \<open>bEndpointAddress = (endpoint & 0x3) | ((direction & 0x1) << 7)\<close>: the low seven bits
  are the endpoint number modulo 4, whatever the number was, and bit 7 is the low bit
  of the direction.
\<close>

theorem addEndpointDescriptor_address:
  assumes "direction \<le> 2"
    and "addEndpointDescriptor K interface endpoint direction transferType syncType usageType
           size' interval = Inr (r, interface')"
  shows "\<exists>d. slot_read (endpointDescriptors interface') (unat r) = Inr d
           \<and> bEndpointAddress d = (endpoint AND 3) OR push_bit 7 (ucast (direction AND 1))
           \<and> unat (bEndpointAddress d AND 0x7F) = unat endpoint mod 4
           \<and> bit (bEndpointAddress d) 7 = bit direction 0"
proof -
  from assms(1) have accepted: "\<not> 2 < direction" by simp
  let ?d = "\<lparr>ed_bLength = of_nat (sizeof K USBEndpointDescriptor_t),
             ed_bDescriptorType = ucast (usb K USBEndpointDescriptorType),
             bEndpointAddress = (endpoint AND 3) OR push_bit 7 (ucast (direction AND 1)),
             ed_bmAttributes =
               ucast ((transferType AND 3) OR push_bit 2 (syncType AND 3)
                      OR push_bit 4 (usageType AND 3)),
             wMaxPacketSize = size', bInterval = interval\<rparr>"
  from assms(2) accepted
  have "slot_read (endpointDescriptors interface') (unat r) = Inr ?d"
    by (auto simp: addEndpointDescriptor_def Let_def slot_set_def slot_read_def address_ucast
             simp del: push_bit_and split: sum.splits if_splits)
  then show ?thesis
    by (simp add: address_low_bits address_bit7 del: push_bit_and)
qed

theorem addEndpointDescriptor_address_witness:
  "\<exists>r interface'.
      addEndpointDescriptor sample_header bare_interface 5 1 2 0 0 512 0 = Inr (r, interface')
      \<and> (\<exists>d. slot_read (endpointDescriptors interface') (unat r) = Inr d
             \<and> bEndpointAddress d = 0x81
             \<and> unat (bEndpointAddress d AND 0x7F) = 1
             \<and> bit (bEndpointAddress d) 7)"
proof -
  have "\<exists>r interface'.
          addEndpointDescriptor sample_header bare_interface 5 1 2 0 0 512 0 = Inr (r, interface')"
    by (simp add: addEndpointDescriptor_def bare_interface_def realloc_def resize_def slot_set_def)
  then obtain r interface' where
    run: "addEndpointDescriptor sample_header bare_interface 5 1 2 0 0 512 0 = Inr (r, interface')"
    by blast
  have accepted: "(1 :: u32) \<le> 2" by simp
  from addEndpointDescriptor_address [OF accepted run] run show ?thesis
    by simp
qed

section \<open>Interning strings and building the tree\<close>

lemma resize_Nil: "resize n [] = replicate n None"
  by (simp add: resize_def)

lemma length_resize: "length (resize n xs) = n"
  by (simp add: resize_def)

lemma take_resize: "m \<le> n \<Longrightarrow> take m (resize n xs) = resize m xs"
  by (auto simp: resize_def min_def take_replicate intro: arg_cong [where f = "\<lambda>k. replicate k None"])

lemma slot_set_resize: "slot_set (resize (Suc n) xs) n v = Inr (resize n xs @ [Some v])"
proof -
  have "(resize (Suc n) xs)[n := Some v] = take n (resize (Suc n) xs) @ [Some v]"
    by (simp add: upd_conv_take_nth_drop length_resize)
  then show ?thesis
    by (simp add: slot_set_def length_resize take_resize)
qed

lemma resize_full: "length xs = n \<Longrightarrow> resize n xs = xs"
  by (simp add: resize_def)

lemma unat_u8_succ:
  assumes "(n :: u8) \<noteq> 255"
  shows "unat (n + 1) = Suc (unat n)"
proof -
  from assms have "unat n \<noteq> unat (255 :: u8)"
    by (simp add: word_unat_eq_iff)
  moreover have "unat n < 256"
    using unsigned_less [of n, where 'a = nat] by simp
  ultimately have "unat n + 1 < 256"
    by simp
  then show ?thesis
    by (simp add: unat_word_ariths)
qed

lemma addStringDescriptor_wf:
  assumes "strings_wf s" and "numStringDescriptors s \<noteq> 255"
  shows "addStringDescriptor K str s =
           Inr (numStringDescriptors s + 1,
                s\<lparr>numStringDescriptors := numStringDescriptors s + 1,
                  stringDescriptors :=
                    Array (string_slots s @
                       [Some \<lparr>sd_bLength = of_nat (sizeof K USBStringDescriptor_t + strlen str),
                              sd_bDescriptorType = ucast (usb K USBStringDescriptorType),
                              bString = take (strlen str) str\<rparr>]),
                  firstStringDescriptor :=
                    Some ((realloc_first (firstStringDescriptor s)
                             (Suc (unat (numStringDescriptors s))))
                          \<lparr>wLANGID := resize (unat (numStringDescriptors s)) (lang_ids s)
                                       @ [Some (ucast (usb K USB_LANGID_ENGLISH_US))]\<rparr>)\<rparr>)"
proof -
  let ?n = "unat (numStringDescriptors s)"
  note u = unat_u8_succ [OF assms(2)]
  from assms(1) have r: "realloc (stringDescriptors s) (Suc ?n) = Inr (resize (Suc ?n) (string_slots s))"
    by (cases "stringDescriptors s") (auto simp: realloc_def strings_wf_def string_slots_def resize_Nil)
  from assms(1) have full: "resize ?n (string_slots s) = string_slots s"
    by (simp add: strings_wf_def resize_full)
  have ids: "wLANGID (realloc_first (firstStringDescriptor s) (Suc ?n)) = resize (Suc ?n) (lang_ids s)"
    by (cases "firstStringDescriptor s") (simp_all add: realloc_first_def lang_ids_def resize_Nil)
  show ?thesis
    by (simp add: addStringDescriptor_def Let_def u r slot_set_resize full ids)
qed


lemma addConfiguration_first:
  assumes "configurations s = Null" and "bNumConfigurations (deviceDescriptor s) = 0"
  shows "addConfiguration K z v i sp rw mp s =
           Inr (0, s\<lparr>deviceDescriptor := (deviceDescriptor s)\<lparr>bNumConfigurations := 1\<rparr>,
                     configurations :=
                       Array [Some \<lparr>cfg_descriptor =
                                \<lparr>cd_bLength = of_nat (sizeof K USBConfigurationDescriptor_t),
                                 cd_bDescriptorType = ucast (usb K USBConfigurationDescriptorType),
                                 wTotalLength = 0, bNumInterfaces = 0, bConfigurationValue = v,
                                 iConfiguration = i,
                                 cd_bmAttributes =
                                   ucast (push_bit 7 (1 :: u32) OR push_bit 6 (ucast sp AND 1)
                                          OR push_bit 5 (ucast rw AND 1)),
                                 bMaxPower = ucast (mp div 2)\<rparr>,
                                interfaces = (if z then Null else Wild)\<rparr>]\<rparr>)"
  using assms by (simp add: addConfiguration_def realloc_def)

lemma strlen_literals:
  "strlen ''Apple Inc.'' = 10"
  "strlen ''Apple Mobile Device (OpenIBoot Mode)'' = 36"
  "strlen [] = 0"
  "strlen ''OpenIBoot Mode Configuration'' = 28"
  "strlen ''IF0'' = 3"
  by (simp_all add: strlen_def)

lemma resize_0: "resize 0 xs = []"
  by (simp add: resize_def)

lemma blank_build:
  assumes "configurations s = Null" "stringDescriptors s = Null" "numStringDescriptors s = 0"
  shows "\<exists>s'. usb_get_device_descriptor K z s = Inr s' \<and> descriptor_tree s' = built_tree K z"
  using assms
  apply (cases "deviceDescriptor s")
  apply (simp add: usb_get_device_descriptor_def addStringDescriptor_wf addConfiguration_first
      strings_wf_def string_slots_def lang_ids_def strlen_literals descriptor_tree_def
      built_tree_def resize_0 resize_full del: of_nat_add)
  done

section \<open>Running the model\<close>

lemmas hw_defs =
  SET_REG_def GET_REG_def modify_reg_def udelay_def power_ctrl_def clock_gate_switch_def
  emit_def interrupt_install_def interrupt_enable_def ep_reg_write_def change_state_def
  spin_while.simps

lemmas descriptor_defs =
  usb_get_device_descriptor_def usb_get_configuration_descriptor_def synthesize_interface_def
  addStringDescriptor_def addConfiguration_def addInterfaceDescriptor_def
  addEndpointDescriptor_def endConfiguration_def packetsizeFromSpeed_def realloc_def resize_def
  realloc_first_def slot_set_def slot_read_def slot_write_def strlen_def Let_def

lemmas release_defs =
  release_all_def releaseConfigurations_def releaseStringDescriptors_def free_def
  for_int8.simps

lemma sample_setup_returns:
  "\<exists>s'. usb_setup sample_header (static_init sample_header sample_answers) = Inr (0, s')"
  by (simp add: usb_setup_def usb_setup_body_def static_init_def sample_header_def
        sample_answers_def hw_defs unmask_endpoint_def set_endpoint_direction_def
        initializeDescriptors_def upt_rec)

lemma sample_up_run:
  "usb_setup sample_header (static_init sample_header sample_answers) = Inr (0, sample_up)"
  using sample_setup_returns by (auto simp: sample_up_def)

lemma sample_up_facts:
  "usb_inited sample_up"
  "configurations sample_up = Null"
  "stringDescriptors sample_up = Null"
  "numStringDescriptors sample_up = 0"
  "firstStringDescriptor sample_up = None"
  "hw_reads sample_up = [0]"
  "endpoint_directions sample_up = [2, 1, 0, 1, 0, 1]"
  by (simp_all add: sample_up_def usb_setup_def usb_setup_body_def static_init_def
        sample_header_def sample_answers_def hw_defs unmask_endpoint_def
        set_endpoint_direction_def initializeDescriptors_def upt_rec eval_nat_numeral)

lemma sample_enumerated_run:
  "usb_get_device_descriptor sample_header True sample_up = Inr sample_enumerated"
proof -
  have "\<exists>s. usb_get_device_descriptor sample_header True sample_up = Inr s"
    by (simp add: descriptor_defs sample_up_facts sample_header_def)
  then show ?thesis
    by (auto simp: sample_enumerated_def)
qed

lemma sample_configured_run:
  "\<exists>d. usb_get_configuration_descriptor sample_header 0 0 sample_enumerated
          = Inr (d, sample_configured)"
proof -
  have "\<exists>d s. usb_get_configuration_descriptor sample_header 0 0 sample_enumerated = Inr (d, s)"
    by (simp add: sample_enumerated_def descriptor_defs sample_up_facts sample_header_def)
  then show ?thesis
    by (auto simp: sample_configured_def)
qed

lemma sample_configured_up: "usb_inited sample_configured"
  by (simp add: sample_configured_def sample_enumerated_def descriptor_defs sample_up_facts
        sample_header_def)

lemma sample_shutdown_run:
  "\<exists>r s'. usb_shutdown sample_header sample_configured = Inr (r, s')"
  by (simp add: sample_configured_def sample_enumerated_def descriptor_defs sample_up_facts
        sample_header_def usb_shutdown_def usb_shutdown_body_def hw_defs release_defs)

section \<open>Installing endpoint handlers\<close>

lemma usb_install_ep_handler_accepts:
  assumes "0 \<le> endpoint" and "endpoint < int (USB_NUM_ENDPOINTS K)"
    and "direction = usb K USBIn \<or> direction = usb K USBOut"
    and "endpoint_directions s ! nat endpoint = direction
         \<or> endpoint_directions s ! nat endpoint = usb K USBBiDir"
  shows "usb_install_ep_handler K endpoint direction h t s =
           Inr (0, s\<lparr>endpoint_handlers := (endpoint_handlers s)
                       [nat endpoint :=
                          (if direction = usb K USBIn
                           then (endpoint_handlers s ! nat endpoint)
                                  \<lparr>ep_in := \<lparr>handler = h, token = t\<rparr>\<rparr>
                           else (endpoint_handlers s ! nat endpoint)
                                  \<lparr>ep_out := \<lparr>handler = h, token = t\<rparr>\<rparr>)]\<rparr>)"
  using assms by (auto simp: usb_install_ep_handler_def)

text \<open>
  C3. Let the endpoint number be inside the table (\<open>0 \<le> endpoint < USB_NUM_ENDPOINTS\<close>,
  the table having that many entries), the direction be \<^verbatim>\<open>USBIn\<close> or \<^verbatim>\<open>USBOut\<close>
  (two different enumerators), and the endpoint's fixed direction be that direction or
  \<^verbatim>\<open>USBBiDir\<close>. Then \<^verbatim>\<open>usb_install_ep_handler\<close> returns 0 and the entry of the pair
  holds the handler and token just given; a second call for the same pair returns 0 as
  well and leaves its own handler and token there, whatever was installed before.
\<close>

theorem usb_install_ep_handler_last_wins:
  assumes "0 \<le> endpoint" and "endpoint < int (USB_NUM_ENDPOINTS K)"
    and "length (endpoint_handlers s) = USB_NUM_ENDPOINTS K"
    and "direction = usb K USBIn \<or> direction = usb K USBOut"
    and "usb K USBIn \<noteq> usb K USBOut"
    and "endpoint_directions s ! nat endpoint = direction
         \<or> endpoint_directions s ! nat endpoint = usb K USBBiDir"
  shows "\<exists>s1 s2.
           usb_install_ep_handler K endpoint direction h1 t1 s = Inr (0, s1)
           \<and> handler_entry K s1 endpoint direction = \<lparr>handler = h1, token = t1\<rparr>
           \<and> usb_install_ep_handler K endpoint direction h2 t2 s1 = Inr (0, s2)
           \<and> handler_entry K s2 endpoint direction = \<lparr>handler = h2, token = t2\<rparr>"
proof -
  let ?i = "nat endpoint"
  let ?put = "\<lambda>h t e. if direction = usb K USBIn
                        then e\<lparr>ep_in := \<lparr>handler = h, token = t\<rparr>\<rparr>
                        else e\<lparr>ep_out := \<lparr>handler = h, token = t\<rparr>\<rparr>"
  let ?s1 = "s\<lparr>endpoint_handlers :=
                 (endpoint_handlers s)[?i := ?put h1 t1 (endpoint_handlers s ! ?i)]\<rparr>"
  let ?s2 = "?s1\<lparr>endpoint_handlers :=
                 (endpoint_handlers ?s1)[?i := ?put h2 t2 (endpoint_handlers ?s1 ! ?i)]\<rparr>"
  from assms(1-3) have inside: "?i < length (endpoint_handlers s)"
    by simp
  have first: "usb_install_ep_handler K endpoint direction h1 t1 s = Inr (0, ?s1)"
    using usb_install_ep_handler_accepts [OF assms(1,2,4,6), of h1 t1]
    by (simp cong: if_cong)
  have dirs: "endpoint_directions ?s1 = endpoint_directions s"
    by simp
  have second: "usb_install_ep_handler K endpoint direction h2 t2 ?s1 = Inr (0, ?s2)"
    using usb_install_ep_handler_accepts [of endpoint K direction ?s1 h2 t2] assms(1,2,4,6)
    by (simp cong: if_cong)
  have e1: "handler_entry K ?s1 endpoint direction = \<lparr>handler = h1, token = t1\<rparr>"
    using inside by (simp add: handler_entry_def)
  have e2: "handler_entry K ?s2 endpoint direction = \<lparr>handler = h2, token = t2\<rparr>"
    using inside by (simp add: handler_entry_def)
  from first second e1 e2 show ?thesis
    by blast
qed

theorem usb_install_ep_handler_last_wins_witness:
  "\<exists>s1 s2.
      usb_install_ep_handler sample_header 0 0 0x1000 7 sample_driver = Inr (0, s1)
      \<and> handler_entry sample_header s1 0 0 = \<lparr>handler = 0x1000, token = 7\<rparr>
      \<and> usb_install_ep_handler sample_header 0 0 0x2000 8 s1 = Inr (0, s2)
      \<and> handler_entry sample_header s2 0 0 = \<lparr>handler = 0x2000, token = 8\<rparr>"
proof -
  have "(0 :: int) \<le> 0" and "(0 :: int) < int (USB_NUM_ENDPOINTS sample_header)"
    and "length (endpoint_handlers sample_driver) = USB_NUM_ENDPOINTS sample_header"
    and "(0 :: u32) = usb sample_header USBIn \<or> (0 :: u32) = usb sample_header USBOut"
    and "usb sample_header USBIn \<noteq> usb sample_header USBOut"
    and "endpoint_directions sample_driver ! nat 0 = 0
         \<or> endpoint_directions sample_driver ! nat 0 = usb sample_header USBBiDir"
    by (simp_all add: sample_header_def sample_driver_def static_init_def)
  from usb_install_ep_handler_last_wins [OF this] show ?thesis .
qed

text \<open>
  What the code rejects: an endpoint number at or above \<open>USB_NUM_ENDPOINTS\<close>; inside
  the table, a direction that the endpoint's fixed direction does not allow, or one
  that is neither \<^verbatim>\<open>USBIn\<close> nor \<^verbatim>\<open>USBOut\<close>. The call returns -1 and changes
  nothing.
\<close>

lemma usb_install_ep_handler_rejects:
  assumes "int (USB_NUM_ENDPOINTS K) \<le> endpoint
           \<or> 0 \<le> endpoint
              \<and> (direction \<noteq> usb K USBIn \<and> direction \<noteq> usb K USBOut
                 \<or> endpoint_directions s ! nat endpoint \<noteq> direction
                    \<and> endpoint_directions s ! nat endpoint \<noteq> usb K USBBiDir)"
  shows "usb_install_ep_handler K endpoint direction h t s = Inr (- 1, s)"
  using assms by (auto simp: usb_install_ep_handler_def)

text \<open>
  C4, where the code departs from the claim. -1 is outside the endpoint range, and the
  call does not return -1: it passes the only range check and indexes
  \<^verbatim>\<open>endpoint_directions\<close> at -1.
\<close>

theorem usb_install_ep_handler_negative_endpoint:
  "usb_install_ep_handler sample_header (- 1) (usb sample_header USBIn) 0x1000 7 sample_driver
     = Inl OutOfBounds"
  by (simp add: usb_install_ep_handler_def sample_header_def)

section \<open>Bring-up and tear-down\<close>

lemma steps_append:
  "steps (fs @ gs) s = (case steps fs s of Inl e \<Rightarrow> Inl e | Inr s' \<Rightarrow> steps gs s')"
  by (induction fs arbitrary: s) (auto split: sum.splits)

lemma usb_setup_body_last:
  "usb_setup_body K = butlast (usb_setup_body K) @ [\<lambda>s. Inr (s\<lparr>usb_inited := True\<rparr>)]"
  by (simp add: usb_setup_body_def)

lemma usb_setup_body_sets_guard:
  assumes "steps (usb_setup_body K) s = Inr s'"
  shows "usb_inited s'"
proof -
  from assms
  have "steps (butlast (usb_setup_body K) @ [\<lambda>s. Inr (s\<lparr>usb_inited := True\<rparr>)]) s = Inr s'"
    using usb_setup_body_last [of K] by simp
  then show ?thesis
    by (auto simp: steps_append split: sum.splits)
qed

text \<open>
  With an unsigned \<^verbatim>\<open>GET_REG\<close> the second wait of \<^verbatim>\<open>usb_setup\<close>,
  \<^verbatim>\<open>while(GET_REG(USB + GRSTCTL) >= 0);\<close>, has no exit: a first call never returns.
\<close>

lemma spin_while_no_exit: "spin_while (\<lambda>v. True) a s = Inl NoResponse"
proof (induction "hw_reads s" arbitrary: s)
  case Nil
  then show ?case
    by (simp add: GET_REG_def spin_while.simps)
next
  case (Cons v rest)
  from Cons.hyps(2) have "hw_reads s = v # rest"
    by simp
  moreover
  have "spin_while (\<lambda>v. True) a (s\<lparr>hw_reads := rest, hw_trace := hw_trace s @ [RegRead a v]\<rparr>)
          = Inl NoResponse"
    by (rule Cons.hyps(1)) simp
  ultimately show ?case
    by (simp add: GET_REG_def spin_while.simps)
qed

lemma usb_setup_unsigned_hangs:
  assumes "\<not> GET_REG_signed K" and "\<not> usb_inited s"
  shows "\<exists>e. usb_setup K s = Inl e"
proof -
  let ?wait = "spin_while (\<lambda>v. True) (reg K USB + reg K GRSTCTL)"
  have at: "usb_setup_body K ! 23 = ?wait"
    using assms(1) by (simp add: usb_setup_body_def)
  have len: "23 < length (usb_setup_body K)"
    by (simp add: usb_setup_body_def)
  note split = id_take_nth_drop [OF len, unfolded at]
  have "\<exists>e. steps (take 23 (usb_setup_body K) @ ?wait # drop (Suc 23) (usb_setup_body K)) s
              = Inl e"
    by (simp add: steps_append spin_while_no_exit split: sum.splits)
  then have "\<exists>e. steps (usb_setup_body K) s = Inl e"
    by (subst split)
  then show ?thesis
    using assms(2) by (auto simp: usb_setup_def)
qed

text \<open>
  C6. Whenever a call of \<^verbatim>\<open>usb_setup\<close> returns, it returns 0 and has set the guard,
  and the next call of \<^verbatim>\<open>usb_setup\<close> (nothing in between) returns 0 and leaves the
  whole state as it was: every variable of the driver, the hardware's answers that are
  still to come and the trace of register accesses and collaborator calls. The same
  holds of the call itself when the guard was already set.
\<close>

theorem usb_setup_second_call:
  assumes "usb_setup K s = Inr (r, s')"
  shows "r = 0 \<and> usb_inited s' \<and> usb_setup K s' = Inr (0, s') \<and> (usb_inited s \<longrightarrow> s' = s)"
proof (cases "usb_inited s")
  case True
  with assms show ?thesis by (simp add: usb_setup_def)
next
  case False
  with assms have r: "r = 0" and run: "steps (usb_setup_body K) s = Inr s'"
    by (auto simp: usb_setup_def split: sum.splits)
  from run have "usb_inited s'" by (rule usb_setup_body_sets_guard)
  with r False show ?thesis by (simp add: usb_setup_def)
qed

theorem usb_setup_second_call_witness:
  "usb_setup sample_header (static_init sample_header sample_answers) = Inr (0, sample_up)
   \<and> \<not> usb_inited (static_init sample_header sample_answers)
   \<and> usb_inited sample_up
   \<and> hw_trace sample_up \<noteq> []
   \<and> usb_setup sample_header sample_up = Inr (0, sample_up)"
proof -
  have trace: "hw_trace sample_up \<noteq> []"
    by (simp add: sample_up_def usb_setup_def usb_setup_body_def static_init_def
          sample_header_def sample_answers_def hw_defs unmask_endpoint_def
          set_endpoint_direction_def initializeDescriptors_def upt_rec)
  from usb_setup_second_call [OF sample_up_run] sample_up_run trace show ?thesis
    by (simp add: static_init_def)
qed

lemma steps_keep:
  assumes "\<And>f t t'. f \<in> set fs \<Longrightarrow> f t = Inr t' \<Longrightarrow> g t' = g t"
    and "steps fs s = Inr s'"
  shows "g s' = g s"
  using assms
proof (induction fs arbitrary: s)
  case Nil
  then show ?case by simp
next
  case (Cons f fs)
  from Cons.prems(2) obtain t where head: "f s = Inr t" and rest: "steps fs t = Inr s'"
    by (auto split: sum.splits)
  from Cons.prems(1) [of f s t] head have "g t = g s"
    by simp
  moreover have "g s' = g t"
  proof (rule Cons.IH [OF _ rest])
    fix h u u'
    assume "h \<in> set fs" and "h u = Inr u'"
    with Cons.prems(1) [of h u u'] show "g u' = g u"
      by simp
  qed
  ultimately show ?case by simp
qed

lemma power_ctrl_keeps:
  "power_ctrl a b s = Inr s' \<Longrightarrow> guard_and_handlers s' = guard_and_handlers s"
  by (auto simp: hw_defs guard_and_handlers_def)

lemma clock_gate_switch_keeps:
  "clock_gate_switch a b s = Inr s' \<Longrightarrow> guard_and_handlers s' = guard_and_handlers s"
  by (auto simp: hw_defs guard_and_handlers_def)

lemma udelay_keeps:
  "udelay a s = Inr s' \<Longrightarrow> guard_and_handlers s' = guard_and_handlers s"
  by (auto simp: hw_defs guard_and_handlers_def)

lemma SET_REG_keeps:
  "SET_REG a v s = Inr s' \<Longrightarrow> guard_and_handlers s' = guard_and_handlers s"
  by (auto simp: hw_defs guard_and_handlers_def)

lemma modify_reg_keeps:
  "modify_reg a f s = Inr s' \<Longrightarrow> guard_and_handlers s' = guard_and_handlers s"
  by (auto simp: hw_defs guard_and_handlers_def split: list.splits)

lemma releaseConfigurations_keeps:
  "releaseConfigurations s = Inr s' \<Longrightarrow> guard_and_handlers s' = guard_and_handlers s"
  by (auto simp: releaseConfigurations_def guard_and_handlers_def split: cptr.splits sum.splits)

lemma releaseStringDescriptors_keeps:
  "releaseStringDescriptors s = Inr s' \<Longrightarrow> guard_and_handlers s' = guard_and_handlers s"
  by (auto simp: releaseStringDescriptors_def guard_and_handlers_def
           split: cptr.splits sum.splits)

lemmas shutdown_keeps =
  power_ctrl_keeps clock_gate_switch_keeps udelay_keeps SET_REG_keeps modify_reg_keeps
  releaseConfigurations_keeps releaseStringDescriptors_keeps

lemma usb_shutdown_body_keeps:
  assumes "steps (usb_shutdown_body K) s = Inr s'"
  shows "guard_and_handlers s' = guard_and_handlers s"
proof (rule steps_keep [OF _ assms])
  fix f t t'
  assume "f \<in> set (usb_shutdown_body K)" and "f t = Inr t'"
  then show "guard_and_handlers t' = guard_and_handlers t"
    by (auto simp: usb_shutdown_body_def dest: shutdown_keeps)
qed

text \<open>
  C9. Whenever \<^verbatim>\<open>usb_shutdown\<close> returns, it returns 0 and the endpoint handler table
  and the guard \<^verbatim>\<open>usb_inited\<close> are what they were before the call. So when the guard
  was set, a call of \<^verbatim>\<open>usb_setup\<close> after the shutdown returns 0 and changes nothing:
  it touches no register and calls no collaborator.
\<close>

theorem usb_shutdown_keeps_guard:
  assumes "usb_shutdown K s = Inr (r, s')"
  shows "r = 0
         \<and> endpoint_handlers s' = endpoint_handlers s
         \<and> usb_inited s' = usb_inited s
         \<and> (usb_inited s \<longrightarrow> usb_setup K s' = Inr (0, s'))"
proof -
  from assms have r: "r = 0" and run: "steps (usb_shutdown_body K) s = Inr s'"
    by (auto simp: usb_shutdown_def split: sum.splits)
  from usb_shutdown_body_keeps [OF run]
  have "endpoint_handlers s' = endpoint_handlers s" and "usb_inited s' = usb_inited s"
    by (simp_all add: guard_and_handlers_def)
  with r show ?thesis
    by (simp add: usb_setup_def)
qed

theorem usb_shutdown_keeps_guard_witness:
  "\<exists>s'. usb_shutdown sample_header sample_configured = Inr (0, s')
         \<and> usb_inited sample_configured
         \<and> usb_inited s'
         \<and> endpoint_handlers s' = endpoint_handlers sample_configured
         \<and> usb_setup sample_header s' = Inr (0, s')"
proof -
  from sample_shutdown_run obtain r s' where
    run: "usb_shutdown sample_header sample_configured = Inr (r, s')"
    by blast
  from usb_shutdown_keeps_guard [OF run] sample_configured_up run show ?thesis
    by auto
qed

section \<open>Finalizing a configuration\<close>

text \<open>
  What \<^verbatim>\<open>endConfiguration\<close> stores: the size of the configuration descriptor plus,
  for each of the first \<open>n\<close> interfaces of the configuration it was given, the size of
  the interface descriptor and of its endpoints, in 16 bits; \<open>n\<close> is the interface
  count of configuration 0. For configuration 0 itself this is the sum over its own
  interfaces.
\<close>

lemma sum_interfaces_eq:
  assumes "sum_interfaces K p idx w = Inr w'"
  shows "\<exists>ifs. map (slot_read p) idx = map Inr ifs
           \<and> w' = w + of_nat (sum_list (map (\<lambda>ifc. sizeof K USBInterfaceDescriptor_t
                         + unat (bNumEndpoints (if_descriptor ifc))
                           * sizeof K USBEndpointDescriptor_t) ifs))"
  using assms
proof (induction idx arbitrary: w)
  case Nil
  then show ?case by simp
next
  case (Cons i idx)
  from Cons.prems obtain ifc where r: "slot_read p i = Inr ifc"
    and rest: "sum_interfaces K p idx
                 (w + of_nat (sizeof K USBInterfaceDescriptor_t
                         + unat (bNumEndpoints (if_descriptor ifc))
                           * sizeof K USBEndpointDescriptor_t)) = Inr w'"
    by (auto split: sum.splits)
  from Cons.IH [OF rest] obtain ifs where
    m: "map (slot_read p) idx = map Inr ifs"
    and w: "w' = (w + of_nat (sizeof K USBInterfaceDescriptor_t
                         + unat (bNumEndpoints (if_descriptor ifc))
                           * sizeof K USBEndpointDescriptor_t))
                + of_nat (sum_list (map (\<lambda>ifc. sizeof K USBInterfaceDescriptor_t
                         + unat (bNumEndpoints (if_descriptor ifc))
                           * sizeof K USBEndpointDescriptor_t) ifs))"
    by blast
  show ?case
    by (rule exI [of _ "ifc # ifs"]) (simp add: r m w)
qed

lemma endConfiguration_total:
  assumes "finalized_total_length K cfg s = Inr w"
  shows "\<exists>c c0 ifs.
           slot_read (configurations s) cfg = Inr c
           \<and> slot_read (configurations s) 0 = Inr c0
           \<and> map (slot_read (interfaces c)) [0 ..< unat (bNumInterfaces (cfg_descriptor c0))]
               = map Inr ifs
           \<and> w = of_nat (sizeof K USBConfigurationDescriptor_t
                  + sum_list (map (\<lambda>ifc. sizeof K USBInterfaceDescriptor_t
                         + unat (bNumEndpoints (if_descriptor ifc))
                           * sizeof K USBEndpointDescriptor_t) ifs))"
proof -
  from assms obtain c c0 w' where c: "slot_read (configurations s) cfg = Inr c"
    and c0: "slot_read (configurations s) 0 = Inr c0"
    and sum: "sum_interfaces K (interfaces c) [0 ..< unat (bNumInterfaces (cfg_descriptor c0))]
                (of_nat (sizeof K USBConfigurationDescriptor_t)) = Inr w'"
    and w: "w = w'"
    by (auto simp: finalized_total_length_def endConfiguration_def slot_read_def slot_write_def
             split: sum.splits cptr.splits if_splits option.splits)
  from sum_interfaces_eq [OF sum] c c0 w show ?thesis
    by auto
qed

text \<open>
  C1, where the code departs from the claim. The second configuration has one
  interface with two endpoints, so its total length should be \<open>9 + 9 + 2 * 7 = 32\<close>;
  the first configuration has no interface, the loop runs zero times and the stored
  length is 9.
\<close>

theorem endConfiguration_second_configuration:
  "finalized_total_length sample_header 1 two_configurations = Inr 9"
  by (simp add: finalized_total_length_def two_configurations_def descriptor_defs
        static_init_def sample_header_def)

lemma endConfiguration_first_configuration:
  "finalized_total_length sample_header 0 sample_configured = Inr 32"
  by (simp add: finalized_total_length_def sample_configured_def sample_enumerated_def
        descriptor_defs sample_up_facts sample_header_def upt_rec)

section \<open>Packet sizes\<close>

lemma packetsizeFromSpeed_unknown:
  assumes "ucast speed_id \<noteq> usb K USB_HIGHSPEED" "ucast speed_id \<noteq> usb K USB_FULLSPEED"
    "ucast speed_id \<noteq> usb K USB_FULLSPEED_48_MHZ" "ucast speed_id \<noteq> usb K USB_LOWSPEED"
  shows "packetsizeFromSpeed K speed_id = 0xFFFF"
  using assms by (simp add: packetsizeFromSpeed_def)

lemma packetsizeFromSpeed_known:
  "ucast speed_id = usb K USB_HIGHSPEED \<Longrightarrow> packetsizeFromSpeed K speed_id = 512"
  "ucast speed_id \<noteq> usb K USB_HIGHSPEED \<Longrightarrow>
     ucast speed_id = usb K USB_FULLSPEED \<or> ucast speed_id = usb K USB_FULLSPEED_48_MHZ \<Longrightarrow>
     packetsizeFromSpeed K speed_id = 64"
  "ucast speed_id \<noteq> usb K USB_HIGHSPEED \<Longrightarrow> ucast speed_id \<noteq> usb K USB_FULLSPEED \<Longrightarrow>
     ucast speed_id \<noteq> usb K USB_FULLSPEED_48_MHZ \<Longrightarrow> ucast speed_id = usb K USB_LOWSPEED \<Longrightarrow>
     packetsizeFromSpeed K speed_id = 32"
  by (auto simp: packetsizeFromSpeed_def)

lemma synthesized_packet_sizes_general:
  assumes "slot_read (configurations s) 0 = Inr c0"
    and "interfaces c0 = Null" and "bNumInterfaces (cfg_descriptor c0) = 0"
    and "strings_wf s" and "numStringDescriptors s \<noteq> 255"
    and "usb K USBIn \<le> 2" and "usb K USBOut \<le> 2"
  shows "synthesized_packet_sizes K speed_id s
           = Inr (packetsizeFromSpeed K speed_id, packetsizeFromSpeed K speed_id)"
proof -
  from assms(1) obtain cs where cs: "configurations s = Array cs" "0 < length cs" "cs ! 0 = Some c0"
    by (auto simp: slot_read_def split: cptr.splits if_splits option.splits)
  from assms(6,7) have acc: "\<not> 2 < usb K USBIn" "\<not> 2 < usb K USBOut"
    by simp_all
  show ?thesis
    using assms(2,3) cs acc
    by (simp add: synthesized_packet_sizes_def usb_get_configuration_descriptor_def
          synthesize_interface_def addStringDescriptor_wf [OF assms(4,5)]
          addInterfaceDescriptor_def addEndpointDescriptor_def endConfiguration_def
          slot_read_def slot_write_def slot_set_def realloc_def resize_def endpoint_at_def Let_def
          upt_rec)
qed

lemma known_speed_packet_sizes:
  "synthesized_packet_sizes sample_header 0 sample_enumerated = Inr (512, 512)"
  "synthesized_packet_sizes sample_header 1 sample_enumerated = Inr (64, 64)"
  "synthesized_packet_sizes sample_header 3 sample_enumerated = Inr (64, 64)"
  "synthesized_packet_sizes sample_header 2 sample_enumerated = Inr (32, 32)"
  by (simp_all add: synthesized_packet_sizes_def endpoint_at_def sample_enumerated_def
        descriptor_defs sample_up_facts sample_header_def)

text \<open>
  C2, where the code departs from the claim. 0x7F is none of the four speed
  identifiers. The call returns the configuration descriptor as for any other speed,
  and both endpoints have \<open>wMaxPacketSize = 65535\<close>, the \<^verbatim>\<open>-1\<close> of
  \<^verbatim>\<open>packetsizeFromSpeed\<close> in 16 bits.
\<close>

theorem unknown_speed_packet_size:
  "synthesized_packet_sizes sample_header 0x7F sample_enumerated = Inr (0xFFFF, 0xFFFF)"
  by (simp add: synthesized_packet_sizes_def endpoint_at_def sample_enumerated_def
        descriptor_defs sample_up_facts sample_header_def)

section \<open>The direction of an endpoint descriptor\<close>

lemma addEndpointDescriptor_rejects:
  "2 < direction \<Longrightarrow>
     addEndpointDescriptor K interface endpoint direction transferType syncType usageType
       size' interval = Inr (255, interface)"
  by (simp add: addEndpointDescriptor_def)

text \<open>
  Whatever values the header gives \<^verbatim>\<open>USBIn\<close> and \<^verbatim>\<open>USBOut\<close>, one of 0, 1 and 2 is
  neither, and the guard \<^verbatim>\<open>direction > 2\<close> lets it pass.
\<close>

lemma addEndpointDescriptor_other_direction:
  "\<exists>direction. direction \<noteq> usb K USBIn \<and> direction \<noteq> usb K USBOut \<and> \<not> 2 < direction"
proof -
  have "(0 :: u32) \<noteq> 1" and "(0 :: u32) \<noteq> 2" and "(1 :: u32) \<noteq> 2"
    by simp_all
  then have "(0 \<noteq> usb K USBIn \<and> 0 \<noteq> usb K USBOut)
             \<or> (1 \<noteq> usb K USBIn \<and> 1 \<noteq> usb K USBOut)
             \<or> (2 \<noteq> usb K USBIn \<and> 2 \<noteq> usb K USBOut)"
    by metis
  then show ?thesis
    by (elim disjE) (rule exI [of _ 0], simp, rule exI [of _ 1], simp, rule exI [of _ 2], simp)
qed

text \<open>
  C7, where the code departs from the claim. \<^verbatim>\<open>USBBiDir\<close> is neither \<^verbatim>\<open>USBIn\<close>
  nor \<^verbatim>\<open>USBOut\<close>, and the call is not rejected: it returns the new index 0 and
  appends an endpoint, whose address byte reads as an OUT endpoint.
\<close>

theorem addEndpointDescriptor_accepts_bidir:
  "addEndpointDescriptor sample_header bare_interface 1 (usb sample_header USBBiDir)
      (usb sample_header USBBulk) (usb sample_header USBNoSynchronization)
      (usb sample_header USBDataEndpoint) 512 0
   = Inr (0, bare_interface
               \<lparr>if_descriptor := (if_descriptor bare_interface)\<lparr>bNumEndpoints := 1\<rparr>,
                endpointDescriptors :=
                  Array [Some \<lparr>ed_bLength = 7, ed_bDescriptorType = 5, bEndpointAddress = 1,
                               ed_bmAttributes = 2, wMaxPacketSize = 512, bInterval = 0\<rparr>]\<rparr>)"
  by (simp add: addEndpointDescriptor_def bare_interface_def realloc_def slot_set_def
        sample_header_def)

section \<open>The string table\<close>

text \<open>
  What one \<^verbatim>\<open>addStringDescriptor\<close> does to a table of fewer than 255 strings: it
  returns the old count plus one, the new entry is what \<^verbatim>\<open>usb_get_string_descriptor\<close>
  returns for that index, one language id is appended, and the header bytes of the
  first string descriptor are what they were.
\<close>

lemma addStringDescriptor_law:
  assumes "strings_wf s" and "numStringDescriptors s \<noteq> 255"
  shows "\<exists>s'. addStringDescriptor K str s = Inr (numStringDescriptors s + 1, s')
           \<and> strings_wf s'
           \<and> numStringDescriptors s' = numStringDescriptors s + 1
           \<and> usb_get_string_descriptor s' (int (unat (numStringDescriptors s)) + 1)
               = Inr (TextDescriptor
                        \<lparr>sd_bLength = of_nat (sizeof K USBStringDescriptor_t + strlen str),
                         sd_bDescriptorType = ucast (usb K USBStringDescriptorType),
                         bString = take (strlen str) str\<rparr>)
           \<and> lang_ids s' = resize (unat (numStringDescriptors s)) (lang_ids s)
                              @ [Some (ucast (usb K USB_LANGID_ENGLISH_US))]
           \<and> lang_header s' = lang_header s"
proof -
  from assms(1) have len: "length (string_slots s) = unat (numStringDescriptors s)"
    by (simp add: strings_wf_def)
  have hdr: "lang_header (s\<lparr>firstStringDescriptor :=
                 Some ((realloc_first (firstStringDescriptor s) n)\<lparr>wLANGID := ids\<rparr>)\<rparr>)
               = lang_header s" for n ids
    by (cases "firstStringDescriptor s") (simp_all add: lang_header_def realloc_first_def)
  show ?thesis
    unfolding addStringDescriptor_wf [OF assms]
    using len hdr
    by (simp add: strings_wf_def string_slots_def unat_u8_succ [OF assms(2)]
          usb_get_string_descriptor_def slot_read_def lang_ids_def lang_header_def nth_append
          add_nonneg_eq_0_iff)
qed

text \<open>
  C5, where the code departs from the claim. Two strings interned into the empty table
  get the indices 1 and 2, index 0 returns the two language ids, and indices 1 and 2
  return the texts with \<open>bLength = 2 + length\<close>. But the first string descriptor's
  \<open>bLength\<close> and \<open>bDescriptorType\<close> were never assigned: the claim's
  \<open>bLength = 2 + 2 * 2\<close> is nowhere in it.
\<close>

theorem language_id_header_never_written:
  "two_strings =
     Inr (1, 2,
          Inr (LangIdDescriptor
                 (Some \<lparr>fs_bLength = None, fs_bDescriptorType = None,
                        wLANGID = [Some 0x0409, Some 0x0409]\<rparr>)),
          Inr (TextDescriptor
                 \<lparr>sd_bLength = 12, sd_bDescriptorType = 3, bString = ''Apple Inc.''\<rparr>),
          Inr (TextDescriptor
                 \<lparr>sd_bLength = 30, sd_bDescriptorType = 3,
                  bString = ''OpenIBoot Mode Configuration''\<rparr>))"
  by (simp add: two_strings_def usb_get_string_descriptor_def descriptor_defs static_init_def
        sample_header_def)

section \<open>Releasing and rebuilding the descriptors\<close>

lemma releaseConfigurations_result:
  assumes "releaseConfigurations s = Inr s'"
  shows "configurations s' = Null"
    and "numStringDescriptors s' = numStringDescriptors s"
    and "stringDescriptors s' = stringDescriptors s"
    and "configurations s \<noteq> Null \<Longrightarrow> bNumConfigurations (deviceDescriptor s') = 0"
  using assms
  by (auto simp: releaseConfigurations_def split: cptr.splits sum.splits)

lemma releaseStringDescriptors_result:
  assumes "releaseStringDescriptors s = Inr s'"
  shows "stringDescriptors s' = Null"
    and "configurations s' = configurations s"
    and "deviceDescriptor s' = deviceDescriptor s"
    and "numStringDescriptors s' = (if stringDescriptors s = Null then numStringDescriptors s else 0)"
  using assms
  by (auto simp: releaseStringDescriptors_def split: cptr.splits sum.splits)

lemma release_all_result:
  assumes "release_all s = Inr s'" and "strings_wf s"
  shows "configurations s' = Null" and "stringDescriptors s' = Null"
    and "numStringDescriptors s' = 0"
    and "configurations s \<noteq> Null \<Longrightarrow> bNumConfigurations (deviceDescriptor s') = 0"
proof -
  from assms(1) obtain s1 where a: "releaseConfigurations s = Inr s1"
    and b: "releaseStringDescriptors s1 = Inr s'"
    by (auto simp: release_all_def split: sum.splits)
  from assms(2) have "stringDescriptors s = Null \<Longrightarrow> numStringDescriptors s = 0"
    by (simp add: strings_wf_def string_slots_def unsigned_eq_0_iff)
  with releaseConfigurations_result [OF a] releaseStringDescriptors_result [OF b]
  show "configurations s' = Null" and "stringDescriptors s' = Null"
    and "numStringDescriptors s' = 0"
    and "configurations s \<noteq> Null \<Longrightarrow> bNumConfigurations (deviceDescriptor s') = 0"
    by auto
qed

text \<open>
  What holds when the release returns and fresh memory has the same contents at both
  builds. Take any state whose string table agrees with its counter and on which both
  release functions return. Then \<^verbatim>\<open>usb_get_device_descriptor\<close> on the released state
  returns, and the descriptor tree it builds is the one that the first call after a
  bring-up built: the string count was reset to 0 and the manufacturer string is index
  1 again, and the configuration count, reset to 0 by the release, is 1 again.
\<close>

lemma release_then_rebuild:
  assumes "strings_wf s" and "release_all s = Inr s1"
  shows "\<exists>first again.
           usb_get_device_descriptor K z (initializeDescriptors t) = Inr first
           \<and> usb_get_device_descriptor K z s1 = Inr again
           \<and> descriptor_tree again = descriptor_tree first
           \<and> descriptor_tree again = built_tree K z
           \<and> numStringDescriptors s1 = 0
           \<and> (configurations s \<noteq> Null \<longrightarrow> bNumConfigurations (deviceDescriptor s1) = 0)
           \<and> bNumConfigurations (deviceDescriptor again) = 1
           \<and> iManufacturer (deviceDescriptor again) = 1"
proof -
  note r = release_all_result [OF assms(2,1)]
  from blank_build [of "initializeDescriptors t" K z] obtain first where
    f: "usb_get_device_descriptor K z (initializeDescriptors t) = Inr first"
    by (auto simp: initializeDescriptors_def)
  from blank_build [OF r(1-3), of K z] obtain again where
    a: "usb_get_device_descriptor K z s1 = Inr again" 
    by blast
  from blank_build [OF r(1-3), of K z] blank_build [of "initializeDescriptors t" K z] f a
  have same: "descriptor_tree again = descriptor_tree first"
    by (simp add: initializeDescriptors_def)
  from blank_build [OF r(1-3), of K z] a
  have "bNumConfigurations (deviceDescriptor again) = 1
        \<and> iManufacturer (deviceDescriptor again) = 1"
    by (simp add: descriptor_tree_def built_tree_def)
  moreover from blank_build [OF r(1-3), of K z] a
  have "descriptor_tree again = built_tree K z"
    by simp
  ultimately show ?thesis
    using f a same r(3,4) by simp
qed

lemma release_then_rebuild_sample:
  "strings_wf sample_configured
   \<and> (\<exists>s1 again.
         release_all sample_configured = Inr s1
         \<and> usb_get_device_descriptor sample_header True s1 = Inr again
         \<and> descriptor_tree again = descriptor_tree sample_enumerated
         \<and> numStringDescriptors sample_configured = 5
         \<and> numStringDescriptors s1 = 0
         \<and> bNumConfigurations (deviceDescriptor s1) = 0
         \<and> bNumConfigurations (deviceDescriptor again) = 1
         \<and> iManufacturer (deviceDescriptor again) = 1)"
proof -
  have wf: "strings_wf sample_configured"
    by (simp add: strings_wf_def string_slots_def sample_configured_def sample_enumerated_def
          descriptor_defs sample_up_facts sample_header_def)
  have five: "numStringDescriptors sample_configured = 5"
    and built: "configurations sample_configured \<noteq> Null"
    by (simp_all add: sample_configured_def sample_enumerated_def descriptor_defs
          sample_up_facts sample_header_def)
  have "\<exists>s1. release_all sample_configured = Inr s1"
    by (simp add: sample_configured_def sample_enumerated_def descriptor_defs sample_up_facts
          sample_header_def release_defs)
  then obtain s1 where rel: "release_all sample_configured = Inr s1"
    by blast
  have init: "initializeDescriptors sample_up = sample_up"
    by (rule usb_driver.equality) (simp_all add: initializeDescriptors_def sample_up_facts)
  from release_then_rebuild [OF wf rel, of sample_header True sample_up]
    sample_enumerated_run init wf rel five built
  show ?thesis
    by auto
qed

text \<open>
  The release after a first build returns when the \<^verbatim>\<open>interfaces\<close> pointer that
  \<^verbatim>\<open>addConfiguration\<close> left unassigned happens to be null, and frees a wild pointer
  when it is not.
\<close>

lemma release_after_build:
  assumes "configurations s = Null" "stringDescriptors s = Null" "numStringDescriptors s = 0"
    and "usb_get_device_descriptor K z s = Inr s'"
  shows "release_all s' = (if z then Inr (s'\<lparr>deviceDescriptor := (deviceDescriptor s')\<lparr>bNumConfigurations := 0\<rparr>,
            configurations := Null, numStringDescriptors := 0, stringDescriptors := Null\<rparr>) else Inl WildPointer)"
proof -
  from blank_build [OF assms(1-3), of K z] assms(4)
  show ?thesis
    by (auto simp: descriptor_tree_def built_tree_def release_defs slot_read_def)
qed

lemma release_after_enumeration:
  assumes "configurations s = Null" "stringDescriptors s = Null" "numStringDescriptors s = 0"
    and "usb_get_device_descriptor K True s = Inr s1"
    and "usb_get_configuration_descriptor K 0 speed_id s1 = Inr (d, s2)"
    and "usb K USBIn \<le> 2" and "usb K USBOut \<le> 2"
  shows "\<exists>s3. release_all s2 = Inr s3"
proof -
  from blank_build [OF assms(1-3), of K True] assms(4)
  have tree: "descriptor_tree s1 = built_tree K True"
    by simp
  then have wf: "strings_wf s1" and n: "numStringDescriptors s1 \<noteq> 255"
    by (simp_all add: descriptor_tree_def built_tree_def strings_wf_def string_slots_def)
  from tree have cfg: "configurations s1 = fst (snd (built_tree K True))"
    and cnt: "bNumConfigurations (deviceDescriptor s1) = 1"
    and num: "numStringDescriptors s1 = 4"
    and strs: "Array (string_slots s1) = fst (snd (snd (snd (built_tree K True))))"
    by (simp_all add: descriptor_tree_def built_tree_def string_slots_def)
  from assms(6,7) have acc: "\<not> 2 < usb K USBIn" "\<not> 2 < usb K USBOut"
    by simp_all
  from assms(5) show ?thesis
    using cfg cnt num strs acc
    apply (simp add: usb_get_configuration_descriptor_def built_tree_def
          synthesize_interface_def addStringDescriptor_wf [OF wf n]
          addInterfaceDescriptor_def addEndpointDescriptor_def endConfiguration_def
          slot_read_def slot_write_def slot_set_def realloc_def resize_def Let_def
          upt_rec strlen_literals del: of_nat_add)
    apply (auto simp: release_defs slot_read_def split: if_splits)
    done
qed

text \<open>
  With fresh memory zeroed at the first build and not at the second, the release
  returns and the second tree is not the first: the \<^verbatim>\<open>interfaces\<close> pointer of the
  configuration is null in one and unassigned in the other.
\<close>

lemma rebuild_with_other_memory:
  "\<exists>first again.
     build_release_rebuild sample_header True False sample_up = Inr (first, again)
     \<and> descriptor_tree again \<noteq> descriptor_tree first"
  by (simp add: build_release_rebuild_def descriptor_tree_def descriptor_defs release_defs
        sample_up_facts sample_header_def)

text \<open>
  C8, where the code departs from the claim. After the bring-up,
  \<^verbatim>\<open>usb_get_device_descriptor\<close> builds the tree and returns. \<^verbatim>\<open>addConfiguration\<close> has
  left the \<^verbatim>\<open>interfaces\<close> pointer of the new configuration unassigned; when the bytes
  that \<^verbatim>\<open>realloc\<close> handed out are not zero, \<^verbatim>\<open>releaseConfigurations\<close> passes that
  pointer to \<^verbatim>\<open>free\<close>. The release does not return, and no tree is rebuilt.
\<close>

theorem release_frees_unassigned_pointer:
  "\<exists>first.
     usb_get_device_descriptor sample_header False sample_up = Inr first
     \<and> bNumConfigurations (deviceDescriptor first) = 1
     \<and> iManufacturer (deviceDescriptor first) = 1
     \<and> release_all first = Inl WildPointer
     \<and> build_release_rebuild sample_header False False sample_up = Inl WildPointer"
  by (simp add: build_release_rebuild_def descriptor_defs release_defs sample_up_facts
        sample_header_def)
section \<open>An invariant of the driver\<close>

lemma driver_inv_frame [simp]:
  "driver_inv K (s\<lparr>deviceDescriptor := dd\<rparr>) = driver_inv K s"
  "driver_inv K (s\<lparr>configurations := cs\<rparr>) = driver_inv K s"
  "driver_inv K (s\<lparr>hw_reads := rs\<rparr>) = driver_inv K s"
  "driver_inv K (s\<lparr>hw_trace := tr\<rparr>) = driver_inv K s"
  "driver_inv K (s\<lparr>usb_state := st\<rparr>) = driver_inv K s"
  "driver_inv K (s\<lparr>usb_inited := b\<rparr>) = driver_inv K s"
  "driver_inv K (s\<lparr>InEPRegs := a\<rparr>) = driver_inv K s"
  "driver_inv K (s\<lparr>OutEPRegs := a\<rparr>) = driver_inv K s"
  "driver_inv K (s\<lparr>inBuffer := b\<rparr>) = driver_inv K s"
  "driver_inv K (s\<lparr>outBuffer := b\<rparr>) = driver_inv K s"
  "driver_inv K (s\<lparr>endpoint_directions := ds\<rparr>) = driver_inv K s"
  by (simp_all add: driver_inv_def strings_wf_def string_slots_def lang_header_def)

lemma addStringDescriptor_full:
  assumes "strings_wf s" and "numStringDescriptors s = 255"
  shows "addStringDescriptor K str s = Inl OutOfBounds"
proof -
  from assms have "stringDescriptors s \<noteq> Wild"
    by (simp add: strings_wf_def)
  with assms(2) show ?thesis
    by (cases "stringDescriptors s")
       (simp_all add: addStringDescriptor_def realloc_def resize_def slot_set_def)
qed

lemma addStringDescriptor_inv:
  assumes "addStringDescriptor K str s = Inr (i, s')" and "driver_inv K s"
  shows "driver_inv K s'"
    and "deviceDescriptor s' = deviceDescriptor s"
    and "configurations s' = configurations s"
proof -
  from assms(2) have wf: "strings_wf s"
    by (simp add: driver_inv_def)
  with assms(1) have n: "numStringDescriptors s \<noteq> 255"
    using addStringDescriptor_full [of s K str] by auto
  from addStringDescriptor_law [OF wf n, of K str] assms
  show "driver_inv K s'"
    by (auto simp: driver_inv_def addStringDescriptor_wf [OF wf n])
  from assms(1) show "deviceDescriptor s' = deviceDescriptor s"
    and "configurations s' = configurations s"
    by (auto simp: addStringDescriptor_wf [OF wf n])
qed

lemma addConfiguration_inv:
  assumes "addConfiguration K z v i sp rw mp s = Inr (r, s')" and "driver_inv K s"
  shows "driver_inv K s'"
  using assms
  by (auto simp: addConfiguration_def Let_def split: sum.splits if_splits)

lemma usb_get_device_descriptor_inv:
  assumes "usb_get_device_descriptor K z s = Inr s'" and "driver_inv K s"
  shows "driver_inv K s'"
  using assms
  by (auto simp: usb_get_device_descriptor_def Let_def
           split: cptr.splits sum.splits prod.splits
           dest!: addStringDescriptor_inv(1) addConfiguration_inv)

lemma endConfiguration_inv:
  assumes "endConfiguration K cfg s = Inr s'" and "driver_inv K s"
  shows "driver_inv K s'"
  using assms
  by (auto simp: endConfiguration_def split: sum.splits)

lemma synthesize_interface_inv:
  assumes "synthesize_interface K speed_id s = Inr s'" and "driver_inv K s"
  shows "driver_inv K s'"
  using assms
  by (auto simp: synthesize_interface_def
           split: sum.splits prod.splits
           dest!: addStringDescriptor_inv(1) endConfiguration_inv)

lemma usb_get_configuration_descriptor_inv:
  assumes "usb_get_configuration_descriptor K index speed_id s = Inr (d, s')" and "driver_inv K s"
  shows "driver_inv K s'"
  using assms
  by (auto simp: usb_get_configuration_descriptor_def
           split: sum.splits if_splits cptr.splits
           dest: synthesize_interface_inv)

lemma usb_install_ep_handler_inv:
  assumes "usb_install_ep_handler K endpoint direction h t s = Inr (r, s')" and "driver_inv K s"
  shows "driver_inv K s'"
  using assms
  by (auto simp: usb_install_ep_handler_def driver_inv_def strings_wf_def string_slots_def
                 lang_header_def split: if_splits)

lemma steps_invariant:
  assumes "\<And>f t t'. f \<in> set fs \<Longrightarrow> P t \<Longrightarrow> f t = Inr t' \<Longrightarrow> P t'"
    and "P s" and "steps fs s = Inr s'"
  shows "P s'"
  using assms
proof (induction fs arbitrary: s)
  case Nil
  then show ?case by simp
next
  case (Cons f fs)
  from Cons.prems(3) obtain t where head: "f s = Inr t" and rest: "steps fs t = Inr s'"
    by (auto split: sum.splits)
  from Cons.prems(1) [of f s t] Cons.prems(2) head have "P t"
    by simp
  show ?case
  proof (rule Cons.IH [OF _ \<open>P t\<close> rest])
    fix h u u'
    assume "h \<in> set fs" and "P u" and "h u = Inr u'"
    with Cons.prems(1) [of h u u'] show "P u'"
      by simp
  qed
qed

lemma spin_while_inv:
  "spin_while c a s = Inr s' \<Longrightarrow> driver_inv K s \<Longrightarrow> driver_inv K s'"
proof (induction c a s rule: spin_while.induct)
  case (1 cond a s)
  show ?case
  proof (cases "hw_reads s")
    case Nil
    with "1.prems"(1) show ?thesis
      by (simp add: GET_REG_def spin_while.simps)
  next
    case (Cons v rest)
    let ?t = "s\<lparr>hw_reads := rest, hw_trace := hw_trace s @ [RegRead a v]\<rparr>"
    from Cons have g: "GET_REG a s = Inr (v, ?t)"
      by (simp add: GET_REG_def)
    show ?thesis
    proof (cases "cond v")
      case True
      with "1.prems"(1) g have "spin_while cond a ?t = Inr s'"
        by (simp add: spin_while.simps [of cond a s])
      moreover from "1.prems"(2) have "driver_inv K ?t"
        by simp
      ultimately show ?thesis
        using "1.IH" [OF g refl True] by simp
    next
      case False
      with "1.prems" g show ?thesis
        by (auto simp: spin_while.simps [of cond a s])
    qed
  qed
qed

lemma hw_step_inv:
  "power_ctrl a b s = Inr s' \<Longrightarrow> driver_inv K s \<Longrightarrow> driver_inv K s'"
  "clock_gate_switch a b s = Inr s' \<Longrightarrow> driver_inv K s \<Longrightarrow> driver_inv K s'"
  "udelay a s = Inr s' \<Longrightarrow> driver_inv K s \<Longrightarrow> driver_inv K s'"
  "SET_REG a v s = Inr s' \<Longrightarrow> driver_inv K s \<Longrightarrow> driver_inv K s'"
  "modify_reg a f s = Inr s' \<Longrightarrow> driver_inv K s \<Longrightarrow> driver_inv K s'"
  "interrupt_install a b s = Inr s' \<Longrightarrow> driver_inv K s \<Longrightarrow> driver_inv K s'"
  "interrupt_enable a s = Inr s' \<Longrightarrow> driver_inv K s \<Longrightarrow> driver_inv K s'"
  "ep_reg_write bank i field v s = Inr s' \<Longrightarrow> driver_inv K s \<Longrightarrow> driver_inv K s'"
  "change_state st s = Inr s' \<Longrightarrow> driver_inv K s \<Longrightarrow> driver_inv K s'"
  "set_endpoint_direction K' i s = Inr s' \<Longrightarrow> driver_inv K s \<Longrightarrow> driver_inv K s'"
  by (auto simp: hw_defs set_endpoint_direction_def split: list.splits if_splits)

lemma unmask_endpoint_inv:
  "unmask_endpoint K' i s = Inr s' \<Longrightarrow> driver_inv K s \<Longrightarrow> driver_inv K s'"
  by (auto simp: unmask_endpoint_def split: sum.splits dest: hw_step_inv)

lemma loop_inv:
  "steps (map (set_endpoint_direction K') is) s = Inr s' \<Longrightarrow> driver_inv K s \<Longrightarrow> driver_inv K s'"
  "steps (map (unmask_endpoint K') is) s = Inr s' \<Longrightarrow> driver_inv K s \<Longrightarrow> driver_inv K s'"
  by (erule steps_invariant [rotated 2], auto dest: hw_step_inv unmask_endpoint_inv)+

lemma release_inv:
  "releaseConfigurations s = Inr s' \<Longrightarrow> driver_inv K s \<Longrightarrow> driver_inv K s'"
  "releaseStringDescriptors s = Inr s' \<Longrightarrow> driver_inv K s \<Longrightarrow> driver_inv K s'"
  by (auto simp: releaseConfigurations_def releaseStringDescriptors_def driver_inv_def
                 strings_wf_def string_slots_def lang_header_def
           split: cptr.splits sum.splits)

lemma initializeDescriptors_inv:
  "driver_inv K s \<Longrightarrow> driver_inv K (initializeDescriptors s)"
  by (simp add: initializeDescriptors_def driver_inv_def strings_wf_def string_slots_def
        lang_header_def)

lemma memset_inv:
  "driver_inv K s \<Longrightarrow>
     driver_inv K (s\<lparr>endpoint_handlers := replicate (USB_NUM_ENDPOINTS K) no_handler\<rparr>)"
  by (simp add: driver_inv_def strings_wf_def string_slots_def lang_header_def)

lemma usb_setup_inv:
  assumes "usb_setup K s = Inr (r, s')" and "driver_inv K s"
  shows "driver_inv K s'"
proof (cases "usb_inited s")
  case True
  with assms show ?thesis by (simp add: usb_setup_def)
next
  case False
  with assms(1) have run: "steps (usb_setup_body K) s = Inr s'"
    by (auto simp: usb_setup_def split: sum.splits)
  show ?thesis
  proof (rule steps_invariant [where P = "driver_inv K", OF _ assms(2) run])
    fix f t t'
    assume "f \<in> set (usb_setup_body K)" and "driver_inv K t" and "f t = Inr t'"
    then show "driver_inv K t'"
      by (auto simp: usb_setup_body_def initializeDescriptors_inv memset_inv emit_def
               split: if_splits
               dest: hw_step_inv spin_while_inv loop_inv)
  qed
qed

lemma usb_shutdown_inv:
  assumes "usb_shutdown K s = Inr (r, s')" and "driver_inv K s"
  shows "driver_inv K s'"
proof -
  from assms(1) have run: "steps (usb_shutdown_body K) s = Inr s'"
    by (auto simp: usb_shutdown_def split: sum.splits)
  show ?thesis
  proof (rule steps_invariant [where P = "driver_inv K", OF _ assms(2) run])
    fix f t t'
    assume "f \<in> set (usb_shutdown_body K)" and "driver_inv K t" and "f t = Inr t'"
    then show "driver_inv K t'"
      by (auto simp: usb_shutdown_body_def dest: hw_step_inv release_inv)
  qed
qed

text \<open>
  In every state the driver can reach: the string table has as many slots as its
  counter says, the header bytes of the first string descriptor are unwritten, and
  the handler table has one entry per endpoint.
\<close>

theorem reachable_invariant:
  assumes "reachable K s"
  shows "driver_inv K s"
  using assms
proof (induction rule: reachable.induct)
  case (at_start answers)
  show ?case
    by (simp add: driver_inv_def static_init_def strings_wf_def string_slots_def
          lang_header_def)
next
  case (more_input s more_answers)
  then show ?case by simp
next
  case (after_setup s r s')
  then show ?case by (auto dest: usb_setup_inv)
next
  case (after_device s zeroed s')
  then show ?case by (auto dest: usb_get_device_descriptor_inv)
next
  case (after_configuration s index speed_id d s')
  then show ?case by (auto dest: usb_get_configuration_descriptor_inv)
next
  case (after_install s endpoint direction h t r s')
  then show ?case by (auto dest: usb_install_ep_handler_inv)
next
  case (after_shutdown s r s')
  then show ?case by (auto dest: usb_shutdown_inv)
qed

lemma reachable_language_id_header:
  assumes "reachable K s"
  shows "usb_get_string_descriptor s 0 = Inr (LangIdDescriptor None)
         \<or> (\<exists>ids. usb_get_string_descriptor s 0
                      = Inr (LangIdDescriptor
                               (Some \<lparr>fs_bLength = None, fs_bDescriptorType = None,
                                      wLANGID = ids\<rparr>)))"
proof -
  from reachable_invariant [OF assms] have h: "lang_header s = (None, None)"
    by (simp add: driver_inv_def)
  show ?thesis
  proof (cases "firstStringDescriptor s")
    case None
    then show ?thesis
      by (simp add: usb_get_string_descriptor_def)
  next
    case (Some f)
    with h have "f = \<lparr>fs_bLength = None, fs_bDescriptorType = None, wLANGID = wLANGID f\<rparr>"
      by (cases f) (simp add: lang_header_def)
    with Some show ?thesis
      by (auto simp: usb_get_string_descriptor_def)
  qed
qed

lemma reachable_strings_wf: "reachable K s \<Longrightarrow> strings_wf s"
  using reachable_invariant [of K s] by (simp add: driver_inv_def)

lemma reachable_handler_table:
  "reachable K s \<Longrightarrow> length (endpoint_handlers s) = USB_NUM_ENDPOINTS K"
  using reachable_invariant [of K s] by (simp add: driver_inv_def)

end
